theory Spec2Isabelle
  imports Complex_Main "HOL-Library.Sublist"
begin

section \<open>Python values used by \<open>buildings3d.py\<close>\<close>

text \<open>
  Floats. A Python float is a finite number, an infinity or NaN. Finite values are kept
  as the exact rational they denote: rounding to binary64, overflow to infinity and the
  sign of zero are not part of this model. Comparisons with NaN are false, as in Python.
\<close>

datatype pyfloat = Fin rat | PInf | NInf | NaN

fun py_lt :: "pyfloat \<Rightarrow> pyfloat \<Rightarrow> bool" where
  "py_lt NaN _ = False"
| "py_lt _ NaN = False"
| "py_lt (Fin a) (Fin b) = (a < b)"
| "py_lt (Fin _) PInf = True"
| "py_lt (Fin _) NInf = False"
| "py_lt PInf _ = False"
| "py_lt NInf NInf = False"
| "py_lt NInf _ = True"

fun py_le :: "pyfloat \<Rightarrow> pyfloat \<Rightarrow> bool" where
  "py_le NaN _ = False"
| "py_le _ NaN = False"
| "py_le (Fin a) (Fin b) = (a \<le> b)"
| "py_le (Fin _) PInf = True"
| "py_le (Fin _) NInf = False"
| "py_le PInf PInf = True"
| "py_le PInf _ = False"
| "py_le NInf _ = True"

text \<open>\<open>a * b\<close> on floats.\<close>

fun py_mul :: "pyfloat \<Rightarrow> pyfloat \<Rightarrow> pyfloat" where
  "py_mul NaN _ = NaN"
| "py_mul _ NaN = NaN"
| "py_mul (Fin a) (Fin b) = Fin (a * b)"
| "py_mul (Fin a) PInf = (if a = 0 then NaN else if 0 < a then PInf else NInf)"
| "py_mul (Fin a) NInf = (if a = 0 then NaN else if 0 < a then NInf else PInf)"
| "py_mul PInf (Fin b) = (if b = 0 then NaN else if 0 < b then PInf else NInf)"
| "py_mul NInf (Fin b) = (if b = 0 then NaN else if 0 < b then NInf else PInf)"
| "py_mul PInf PInf = PInf"
| "py_mul PInf NInf = NInf"
| "py_mul NInf PInf = NInf"
| "py_mul NInf NInf = PInf"

text \<open>
  The builtin \<open>max(a, b)\<close> of two arguments keeps \<open>a\<close> unless \<open>b > a\<close>; so
  \<open>max(nan, 3.0)\<close> is \<open>nan\<close> and \<open>max(3.0, nan)\<close> is \<open>3.0\<close>.
\<close>

definition py_max :: "pyfloat \<Rightarrow> pyfloat \<Rightarrow> pyfloat" where
  "py_max a b = (if py_lt a b then b else a)"

text \<open>
  Strings are lists of code points below 256. \<open>str.strip()\<close> removes the characters
  for which \<open>str.isspace\<close> holds; \<open>float\<close> removes a smaller set on ASCII text
  (the C whitespace), to which the two Latin-1 spaces are mapped beforehand.
\<close>

definition code :: "char \<Rightarrow> nat" where
  "code c = of_char c"

definition str_isspace :: "char \<Rightarrow> bool" where
  "str_isspace c = (let n = code c in
     (9 \<le> n \<and> n \<le> 13) \<or> (28 \<le> n \<and> n \<le> 32) \<or> n = 133 \<or> n = 160)"

definition float_isspace :: "char \<Rightarrow> bool" where
  "float_isspace c = (let n = code c in
     (9 \<le> n \<and> n \<le> 13) \<or> n = 32 \<or> n = 133 \<or> n = 160)"

definition strip_with :: "(char \<Rightarrow> bool) \<Rightarrow> string \<Rightarrow> string" where
  "strip_with sp s = rev (dropWhile sp (rev (dropWhile sp s)))"

definition strip :: "string \<Rightarrow> string" where
  "strip s = strip_with str_isspace s"

text \<open>\<open>s.replace("m", "")\<close>: every occurrence of the character is deleted.\<close>

definition replace_m :: "string \<Rightarrow> string" where
  "replace_m s = filter (\<lambda>c. c \<noteq> CHR ''m'') s"

text \<open>\<open>str.lower()\<close> on code points below 256.\<close>

definition lower_char :: "char \<Rightarrow> char" where
  "lower_char c = (let n = code c in
     if (65 \<le> n \<and> n \<le> 90) \<or> (192 \<le> n \<and> n \<le> 214) \<or> (216 \<le> n \<and> n \<le> 222)
     then char_of (n + 32) else c)"

definition lower :: "string \<Rightarrow> string" where
  "lower s = map lower_char s"

subsection \<open>The builtin \<open>float\<close> on a string\<close>

definition is_digit :: "char \<Rightarrow> bool" where
  "is_digit c = (48 \<le> code c \<and> code c \<le> 57)"

text \<open>The value of a run of decimal digits, most significant first.\<close>

definition digits_val :: "string \<Rightarrow> nat" where
  "digits_val ds = foldl (\<lambda>acc c. 10 * acc + (code c - 48)) 0 ds"

text \<open>
  An underscore is accepted only between two digits: it must follow a digit and be
  followed by one.
\<close>

fun underscores_ok :: "char option \<Rightarrow> string \<Rightarrow> bool" where
  "underscores_ok prev [] = (prev \<noteq> Some CHR ''_'')"
| "underscores_ok prev (c # cs) =
     (if c = CHR ''_''
      then (case prev of None \<Rightarrow> False | Some p \<Rightarrow> is_digit p) \<and> underscores_ok (Some c) cs
      else (if prev = Some CHR ''_'' then is_digit c else True) \<and> underscores_ok (Some c) cs)"

text \<open>The exponent part: empty, or \<open>e\<close>/\<open>E\<close>, an optional sign and at least one digit.\<close>

definition parse_exponent :: "string \<Rightarrow> int option" where
  "parse_exponent s =
     (case s of
        [] \<Rightarrow> Some 0
      | c # r \<Rightarrow>
          if c = CHR ''e'' \<or> c = CHR ''E'' then
            (let (neg, ds) = (case r of
                                [] \<Rightarrow> (False, [])
                              | d # r' \<Rightarrow> if d = CHR ''-'' then (True, r')
                                          else if d = CHR ''+'' then (False, r')
                                          else (False, r))
             in if ds \<noteq> [] \<and> list_all is_digit ds
                then Some (if neg then - int (digits_val ds) else int (digits_val ds))
                else None)
          else None)"

definition scale10 :: "rat \<Rightarrow> int \<Rightarrow> rat" where
  "scale10 q e = (if 0 \<le> e then q * 10 ^ nat e else q / 10 ^ nat (- e))"

text \<open>
  An unsigned literal: \<open>inf\<close>, \<open>infinity\<close> or \<open>nan\<close> in any letter case, or digits
  with an optional fraction (at least one digit on one side of the point) and an
  optional exponent. The whole string has to be consumed.
\<close>

definition parse_unsigned :: "string \<Rightarrow> pyfloat option" where
  "parse_unsigned s =
     (if lower s = ''inf'' \<or> lower s = ''infinity'' then Some PInf
      else if lower s = ''nan'' then Some NaN
      else
        (let ip = takeWhile is_digit s;
             r1 = dropWhile is_digit s;
             has_point = (r1 \<noteq> [] \<and> hd r1 = CHR ''.'');
             fp = (if has_point then takeWhile is_digit (tl r1) else []);
             r2 = (if has_point then dropWhile is_digit (tl r1) else r1)
         in if ip = [] \<and> fp = [] then None
            else (case parse_exponent r2 of
                    None \<Rightarrow> None
                  | Some e \<Rightarrow>
                      Some (Fin (scale10
                        (of_nat (digits_val (ip @ fp)) / 10 ^ length fp) e)))))"

fun py_neg :: "pyfloat \<Rightarrow> pyfloat" where
  "py_neg (Fin q) = Fin (- q)"
| "py_neg PInf = NInf"
| "py_neg NInf = PInf"
| "py_neg NaN = NaN"

definition parse_signed :: "string \<Rightarrow> pyfloat option" where
  "parse_signed s =
     (case s of
        [] \<Rightarrow> None
      | c # r \<Rightarrow>
          if c = CHR ''-'' then map_option py_neg (parse_unsigned r)
          else if c = CHR ''+'' then parse_unsigned r
          else parse_unsigned s)"

text \<open>\<open>float(s)\<close> for a string \<open>s\<close>; \<open>None\<close> stands for the \<open>ValueError\<close>.\<close>

definition float_of_string :: "string \<Rightarrow> pyfloat option" where
  "float_of_string s =
     (if underscores_ok None s
      then parse_signed (filter (\<lambda>c. c \<noteq> CHR ''_'') (strip_with float_isspace s))
      else None)"

subsection \<open>Attribute values and exceptions\<close>

text \<open>
  A tag value of a footprint row is a string, a number or \<open>None\<close>; a number (int or
  float, such as the NaN that a data frame holds for a missing tag) is identified with
  its float value.
\<close>

datatype pyval = PyNone | PyStr string | PyNum pyfloat

type_synonym attrs = "string \<rightharpoonup> pyval"

datatype error =
    ValueError string
  | TypeError string
  | RuntimeError string
  | OtherException string

section \<open>Configuration\<close>

definition DEFAULT_LEVEL_HEIGHT_M :: pyfloat where
  "DEFAULT_LEVEL_HEIGHT_M = Fin (32 / 10)"

definition MIN_HEIGHT_M :: pyfloat where
  "MIN_HEIGHT_M = Fin 3"

type_synonym rgba = "nat \<times> nat \<times> nat \<times> nat"

text \<open>\<open>COLOR_MAP\<close>, a dictionary with nine keys.\<close>

definition COLOR_MAP :: "string \<rightharpoonup> rgba" where
  "COLOR_MAP = map_of
     [(''residential'', (80, 160, 255, 255)),
      (''commercial'', (255, 160, 60, 255)),
      (''industrial'', (180, 180, 180, 255)),
      (''retail'', (255, 120, 120, 255)),
      (''office'', (255, 210, 80, 255)),
      (''education'', (160, 120, 255, 255)),
      (''hospital'', (250, 120, 200, 255)),
      (''public'', (120, 220, 180, 255)),
      (''default'', (200, 200, 200, 255))]"

section \<open>Height of a footprint\<close>

text \<open>
  The functions \<open>_footprint_height\<close>, \<open>_footprint_color\<close>, \<open>_polygon_to_trimesh\<close>
  and \<open>_bbox_from_point_m\<close> keep their names without the leading underscore.
\<close>

text \<open>\<open>attrs[key] not in (None, "", "NaN")\<close>\<close>

definition not_in_missing :: "pyval \<Rightarrow> bool" where
  "not_in_missing v = (v \<noteq> PyNone \<and> v \<noteq> PyStr '''' \<and> v \<noteq> PyStr ''NaN'')"

text \<open>
  \<open>float(str(v).replace("m", "").strip())\<close>. For a string, \<open>str\<close> is the identity.
  The text that \<open>str\<close> gives for a float has no letter \<open>m\<close> and \<open>float\<close> reads it
  back to the same value (\<open>nan\<close> and \<open>inf\<close> included). \<open>str(None)\<close> is \<open>None\<close>,
  which \<open>float\<close> rejects.
\<close>

definition height_of_value :: "pyval \<Rightarrow> error + pyfloat" where
  "height_of_value v =
     (case v of
        PyStr s \<Rightarrow> (case float_of_string (strip (replace_m s)) of
                      Some x \<Rightarrow> Inr x
                    | None \<Rightarrow> Inl (ValueError ''could not convert string to float''))
      | PyNum x \<Rightarrow> Inr x
      | PyNone \<Rightarrow> Inl (ValueError ''could not convert string to float''))"

text \<open>\<open>float(v)\<close>: a \<open>ValueError\<close> for a string that is no literal, a \<open>TypeError\<close> for \<open>None\<close>.\<close>

definition float_of_value :: "pyval \<Rightarrow> error + pyfloat" where
  "float_of_value v =
     (case v of
        PyStr s \<Rightarrow> (case float_of_string s of
                      Some x \<Rightarrow> Inr x
                    | None \<Rightarrow> Inl (ValueError ''could not convert string to float''))
      | PyNum x \<Rightarrow> Inr x
      | PyNone \<Rightarrow> Inl (TypeError ''float() argument must be a string or a real number''))"

text \<open>
  The two \<open>for key in (...)\<close> loops: the first key that is in the mapping, is not one of
  the three markers and converts ends the loop (\<open>break\<close>); a \<open>ValueError\<close> is swallowed
  (\<open>pass\<close>); any other exception leaves the function.
\<close>

fun first_float :: "(pyval \<Rightarrow> error + pyfloat) \<Rightarrow> attrs \<Rightarrow> string list \<Rightarrow> error + pyfloat option" where
  "first_float conv attrs [] = Inr None"
| "first_float conv attrs (key # keys) =
     (case attrs key of
        None \<Rightarrow> first_float conv attrs keys
      | Some v \<Rightarrow>
          if not_in_missing v then
            (case conv v of
               Inr x \<Rightarrow> Inr (Some x)
             | Inl (ValueError _) \<Rightarrow> first_float conv attrs keys
             | Inl e \<Rightarrow> Inl e)
          else first_float conv attrs keys)"

definition footprint_height :: "attrs \<Rightarrow> error + pyfloat" where
  "footprint_height attrs =
     (case first_float height_of_value attrs [''height'', ''building:height''] of
        Inl e \<Rightarrow> Inl e
      | Inr (Some h) \<Rightarrow> Inr h
      | Inr None \<Rightarrow>
          (case first_float float_of_value attrs [''building:levels'', ''levels''] of
             Inl e \<Rightarrow> Inl e
           | Inr (Some levels) \<Rightarrow> Inr (py_max (py_mul levels DEFAULT_LEVEL_HEIGHT_M) MIN_HEIGHT_M)
           | Inr None \<Rightarrow> Inr MIN_HEIGHT_M))"

section \<open>Color of a footprint\<close>

text \<open>The chain of tests on one lowered string; \<open>None\<close> when none of them returns.\<close>

definition color_of_word :: "string \<Rightarrow> rgba option" where
  "color_of_word val =
     (if val \<in> dom COLOR_MAP then COLOR_MAP val
      else if val \<in> set [''apartments'', ''house'', ''residential''] then COLOR_MAP ''residential''
      else if val \<in> set [''retail'', ''shop'', ''mall''] then COLOR_MAP ''retail''
      else if val \<in> set [''commercial'', ''hotel''] then COLOR_MAP ''commercial''
      else if val \<in> set [''industrial'', ''warehouse''] then COLOR_MAP ''industrial''
      else if val \<in> set [''school'', ''university'', ''college''] then COLOR_MAP ''education''
      else if val \<in> set [''hospital'', ''clinic''] then COLOR_MAP ''hospital''
      else if val \<in> set [''office''] then COLOR_MAP ''office''
      else None)"

fun color_loop :: "attrs \<Rightarrow> string list \<Rightarrow> rgba option" where
  "color_loop attrs [] = None"
| "color_loop attrs (key # keys) =
     (case attrs key of
        Some (PyStr val) \<Rightarrow>
          (case color_of_word (lower val) of
             Some c \<Rightarrow> Some c
           | None \<Rightarrow> color_loop attrs keys)
      | _ \<Rightarrow> color_loop attrs keys)"

definition footprint_color :: "attrs \<Rightarrow> rgba" where
  "footprint_color attrs =
     (case color_loop attrs [''building:use'', ''landuse'', ''building''] of
        Some c \<Rightarrow> c
      | None \<Rightarrow> the (COLOR_MAP ''default''))"

section \<open>Geometry, meshes and the external libraries\<close>

text \<open>
  The geometry, mesh, projection and download libraries are not part of the repository.
  Their operations are parameters of the model, collected in one record; the type \<open>'p\<close>
  is the library's polygon. A geometry is a polygon, a multi-polygon or something else
  (a point, a line, a collection).
\<close>

datatype 'p geometry = Polygon 'p | MultiPolygon "'p list" | OtherGeometry

text \<open>
  A mesh is represented by what produced it: the geometry and the distance that were
  handed to the extrusion routine, and the color later assigned to all its vertices.
\<close>

record 'p mesh =
  footprint :: "'p geometry"
  distance :: pyfloat
  vertex_colors :: "rgba option"

datatype crs = EPSG nat

record 'p row =
  geometry :: "'p geometry option"
  attrs :: attrs

record 'p gdf =
  crs :: "crs option"
  rows :: "'p row list"

type_synonym bbox = "pyfloat \<times> pyfloat \<times> pyfloat \<times> pyfloat"

record 'p env =
  is_valid :: "'p \<Rightarrow> bool"
  area :: "'p \<Rightarrow> pyfloat"
  buffer :: "'p \<Rightarrow> rat \<Rightarrow> 'p geometry"
  extrude_error :: "'p geometry \<Rightarrow> pyfloat \<Rightarrow> error option"
  bbox_from_point :: "pyfloat \<times> pyfloat \<Rightarrow> pyfloat \<Rightarrow> bbox"
  features_from_bbox :: "bbox \<Rightarrow> (string \<times> bool) list \<Rightarrow> error + 'p gdf"
  estimate_utm_crs :: "'p gdf \<Rightarrow> error + crs"
  reproject :: "crs \<Rightarrow> crs \<Rightarrow> 'p geometry \<Rightarrow> 'p geometry"
  explode_error :: "'p row list \<Rightarrow> error option"
  simplify_geometry :: "'p geometry \<Rightarrow> rat \<Rightarrow> error + 'p geometry"

text \<open>
  Calls that can raise in the model: the download, the estimate of the UTM zone and the
  extrusion, which the code wraps in \<open>try\<close>; and \<open>explode\<close> and \<open>simplify\<close>, which
  it does not wrap, so that their exception leaves \<open>fetch_buildings_gdf\<close>
  (simplification raises, for instance, on coordinates that are not finite).
  \<open>to_crs\<close> raises for geometry without a reference system; between two defined
  reference systems the reprojection is a total function of the coordinates. Validity,
  area and buffer of a polygon and the bounding box around a point are total as well.
\<close>

text \<open>\<open>str(e)\<close> of an exception.\<close>

fun error_text :: "error \<Rightarrow> string" where
  "error_text (ValueError m) = m"
| "error_text (TypeError m) = m"
| "error_text (RuntimeError m) = m"
| "error_text (OtherException m) = m"

text \<open>\<open>trimesh.creation.extrude_polygon(g, height=h)\<close>: it raises, or gives the solid.\<close>

definition extrude_polygon :: "'p env \<Rightarrow> 'p geometry \<Rightarrow> pyfloat \<Rightarrow> error + 'p mesh" where
  "extrude_polygon env g h =
     (case extrude_error env g h of
        Some e \<Rightarrow> Inl e
      | None \<Rightarrow> Inr \<lparr>footprint = g, distance = h, vertex_colors = None\<rparr>)"

section \<open>The query configuration\<close>

record OSM3DConfig =
  lat :: pyfloat
  lon :: pyfloat
  radius_m :: pyfloat
  simplify :: bool
  merge_multipolygons :: bool

text \<open>
  The generated constructor of the data class: it stores its arguments and checks
  nothing. The last three fields have defaults (500.0, True, True).
\<close>

definition OSM3DConfig_init ::
  "pyfloat \<Rightarrow> pyfloat \<Rightarrow> pyfloat option \<Rightarrow> bool option \<Rightarrow> bool option \<Rightarrow> error + OSM3DConfig" where
  "OSM3DConfig_init la lo r s m =
     Inr \<lparr>lat = la, lon = lo,
          radius_m = (case r of None \<Rightarrow> Fin 500 | Some x \<Rightarrow> x),
          simplify = (case s of None \<Rightarrow> True | Some b \<Rightarrow> b),
          merge_multipolygons = (case m of None \<Rightarrow> True | Some b \<Rightarrow> b)\<rparr>"

definition bbox_from_point_m :: "'p env \<Rightarrow> pyfloat \<Rightarrow> pyfloat \<Rightarrow> pyfloat \<Rightarrow> bbox" where
  "bbox_from_point_m env la lo dist_m = bbox_from_point env (la, lo) dist_m"

section \<open>From a polygon to a mesh\<close>

text \<open>
  \<open>max(poly.geoms, key=lambda g: g.area)\<close>: the first part is kept until a later one
  has a greater area; an empty sequence is a \<open>ValueError\<close>.
\<close>

fun max_area_from :: "'p env \<Rightarrow> 'p \<Rightarrow> 'p list \<Rightarrow> 'p" where
  "max_area_from env best [] = best"
| "max_area_from env best (g # gs) =
     (if py_lt (area env best) (area env g) then max_area_from env g gs
      else max_area_from env best gs)"

definition max_by_area :: "'p env \<Rightarrow> 'p list \<Rightarrow> error + 'p" where
  "max_by_area env gs =
     (case gs of
        [] \<Rightarrow> Inl (ValueError ''max() arg is an empty sequence'')
      | g # gs' \<Rightarrow> Inr (max_area_from env g gs'))"

text \<open>The first block of \<open>_polygon_to_trimesh\<close>: the repair of an invalid polygon.\<close>

definition repair :: "'p env \<Rightarrow> 'p \<Rightarrow> error + 'p" where
  "repair env poly =
     (if \<not> is_valid env poly then
        (case buffer env poly 0 of
           Polygon q \<Rightarrow> Inr q
         | MultiPolygon qs \<Rightarrow> max_by_area env qs
         | OtherGeometry \<Rightarrow> Inl (ValueError ''Invalid polygon after buffer(0)''))
      else Inr poly)"

definition TINY_AREA :: pyfloat where
  "TINY_AREA = Fin (1 / 10 ^ 12)"

definition polygon_to_trimesh :: "'p env \<Rightarrow> 'p \<Rightarrow> pyfloat \<Rightarrow> error + 'p mesh" where
  "polygon_to_trimesh env poly height =
     (case repair env poly of
        Inl e \<Rightarrow> Inl e
      | Inr p \<Rightarrow>
          if py_le (area env p) TINY_AREA then Inl (ValueError ''Polygon too small'')
          else
            (case extrude_polygon env (Polygon p) (py_max height MIN_HEIGHT_M) of
               Inr mesh \<Rightarrow> Inr mesh
             | Inl _ \<Rightarrow>
                 extrude_polygon env (buffer env p (5 / 100)) (py_max height MIN_HEIGHT_M)))"

section \<open>Fetching and normalising the footprints\<close>

definition set_crs :: "crs \<Rightarrow> 'p gdf \<Rightarrow> 'p gdf" where
  "set_crs c g = g\<lparr>crs := Some c\<rparr>"

text \<open>\<open>gdf.to_crs(c)\<close> raises for geometry that has no reference system.\<close>

definition to_crs :: "'p env \<Rightarrow> crs \<Rightarrow> 'p gdf \<Rightarrow> error + 'p gdf" where
  "to_crs env c g =
     (case crs g of
        None \<Rightarrow> Inl (ValueError ''Cannot transform naive geometries'')
      | Some c0 \<Rightarrow>
          Inr (g\<lparr>crs := Some c,
                 rows := map (\<lambda>r. r\<lparr>geometry := map_option (reproject env c0 c) (geometry r)\<rparr>)
                             (rows g)\<rparr>))"

text \<open>
  The \<open>try\<close>/\<open>except\<close> that reprojects to a metric system. The assignment that sets
  the reference system is already done when the estimate raises, so the handler starts
  from \<open>g1\<close>.
\<close>

definition normalize :: "'p env \<Rightarrow> 'p gdf \<Rightarrow> error + 'p gdf" where
  "normalize env g =
     (let g1 = (if crs g = None then set_crs (EPSG 4326) g else g);
          attempt = (case estimate_utm_crs env g1 of
                       Inl e \<Rightarrow> Inl e
                     | Inr utm \<Rightarrow> to_crs env utm g1)
      in case attempt of
           Inr g2 \<Rightarrow> Inr g2
         | Inl _ \<Rightarrow>
             (let g3 = (if crs g1 = None then set_crs (EPSG 4326) g1 else g1)
              in to_crs env (EPSG 3857) g3))"

definition is_polygonal :: "'p row \<Rightarrow> bool" where
  "is_polygonal r =
     (case geometry r of
        Some (Polygon _) \<Rightarrow> True
      | Some (MultiPolygon _) \<Rightarrow> True
      | _ \<Rightarrow> False)"

text \<open>\<open>gdf.explode\<close>: one row for each part of a multi-polygon, with the same tags.\<close>

definition explode_row :: "'p row \<Rightarrow> 'p row list" where
  "explode_row r =
     (case geometry r of
        Some (MultiPolygon ps) \<Rightarrow> map (\<lambda>p. r\<lparr>geometry := Some (Polygon p)\<rparr>) ps
      | _ \<Rightarrow> [r])"

text \<open>
  \<open>gdf["geometry"].simplify(0.05, preserve_topology=True)\<close>: the geometries are
  simplified one after the other, and the first exception ends the call.
\<close>

fun simplify_rows :: "'p env \<Rightarrow> 'p row list \<Rightarrow> error + 'p row list" where
  "simplify_rows env [] = Inr []"
| "simplify_rows env (r # rs) =
     (case (case geometry r of
              None \<Rightarrow> Inr r
            | Some g \<Rightarrow>
                (case simplify_geometry env g (5 / 100) of
                   Inl e \<Rightarrow> Inl e
                 | Inr g' \<Rightarrow> Inr (r\<lparr>geometry := Some g'\<rparr>))) of
        Inl e \<Rightarrow> Inl e
      | Inr r' \<Rightarrow>
          (case simplify_rows env rs of
             Inl e \<Rightarrow> Inl e
           | Inr rs' \<Rightarrow> Inr (r' # rs')))"

definition DOWNLOAD_MSG :: string where
  "DOWNLOAD_MSG = ''No se pudo descargar datos OSM: ''"

text \<open>
  Only the download is wrapped in \<open>try\<close> here. An exception of the normalisation, of
  \<open>explode\<close> or of \<open>simplify\<close> leaves the function as it is.
\<close>

definition fetch_buildings_gdf :: "'p env \<Rightarrow> OSM3DConfig \<Rightarrow> error + 'p gdf" where
  "fetch_buildings_gdf env cfg =
     (let box = bbox_from_point_m env (lat cfg) (lon cfg) (radius_m cfg);
          tags = [(''building'', True)]
      in case features_from_bbox env box tags of
           Inl e \<Rightarrow> Inl (RuntimeError (DOWNLOAD_MSG @ error_text e))
         | Inr g0 \<Rightarrow>
             (case normalize env g0 of
                Inl e \<Rightarrow> Inl e
              | Inr g1 \<Rightarrow>
                  (let g2 = g1\<lparr>rows := filter is_polygonal (rows g1)\<rparr>
                   in if rows g2 = [] then Inr g2
                      else
                        (case (if merge_multipolygons cfg
                               then (case explode_error env (rows g2) of
                                       Some e \<Rightarrow> Inl e
                                     | None \<Rightarrow>
                                         Inr (g2\<lparr>rows := concat (map explode_row (rows g2))\<rparr>))
                               else Inr g2) of
                           Inl e \<Rightarrow> Inl e
                         | Inr g3 \<Rightarrow>
                             if simplify cfg
                             then (case simplify_rows env (rows g3) of
                                     Inl e \<Rightarrow> Inl e
                                   | Inr rs \<Rightarrow> Inr (g3\<lparr>rows := rs\<rparr>))
                             else Inr g3))))"

section \<open>Assembling the scene\<close>

type_synonym 'p scene = "'p mesh list"

text \<open>
  The inner loop over the polygons of one row. Whatever \<open>_polygon_to_trimesh\<close> raises
  is swallowed (\<open>except Exception: continue\<close>): the polygon adds no mesh.
\<close>

fun add_polys :: "'p env \<Rightarrow> pyfloat \<Rightarrow> rgba \<Rightarrow> 'p list \<Rightarrow> 'p scene \<times> nat \<Rightarrow> 'p scene \<times> nat" where
  "add_polys env height color [] st = st"
| "add_polys env height color (poly # polys) (scene, count) =
     (case polygon_to_trimesh env poly (py_max height MIN_HEIGHT_M) of
        Inr mesh \<Rightarrow>
          add_polys env height color polys
            (scene @ [mesh\<lparr>vertex_colors := Some color\<rparr>], count + 1)
      | Inl _ \<Rightarrow> add_polys env height color polys (scene, count))"

text \<open>
  The outer loop over the rows. The height and the color are computed outside the
  \<open>try\<close>, so an exception of the classifier would leave the function.
\<close>

fun add_rows :: "'p env \<Rightarrow> 'p row list \<Rightarrow> 'p scene \<times> nat \<Rightarrow> error + 'p scene \<times> nat" where
  "add_rows env [] st = Inr st"
| "add_rows env (r # rs) st =
     (case geometry r of
        None \<Rightarrow> add_rows env rs st
      | Some geom \<Rightarrow>
          (case footprint_height (attrs r) of
             Inl e \<Rightarrow> Inl e
           | Inr height \<Rightarrow>
               (let color = footprint_color (attrs r) in
                case geom of
                  Polygon p \<Rightarrow> add_rows env rs (add_polys env height color [p] st)
                | MultiPolygon ps \<Rightarrow> add_rows env rs (add_polys env height color ps st)
                | OtherGeometry \<Rightarrow> add_rows env rs st)))"

definition NO_BUILDINGS_MSG :: string where
  "NO_BUILDINGS_MSG = ''No se encontraron edificios en el '' @ [char_of (225::nat)] @
     ''rea seleccionada. Intenta aumentar el radio.''"

definition NO_MESH_MSG :: string where
  "NO_MESH_MSG = ''No se pudo crear ninguna malla.''"

text \<open>
  The result of a run is the path together with the scene that \<open>scene.export\<close> wrote
  to it.
\<close>

definition build_glb_from_osm :: "'p env \<Rightarrow> OSM3DConfig \<Rightarrow> string \<Rightarrow> error + string \<times> 'p scene" where
  "build_glb_from_osm env cfg out_path =
     (case fetch_buildings_gdf env cfg of
        Inl e \<Rightarrow> Inl e
      | Inr g \<Rightarrow>
          if rows g = [] then Inl (RuntimeError NO_BUILDINGS_MSG)
          else
            (case add_rows env (rows g) ([], 0) of
               Inl e \<Rightarrow> Inl e
             | Inr (scene, count) \<Rightarrow>
                 if count = 0 then Inl (RuntimeError NO_MESH_MSG)
                 else Inr (out_path, scene)))"

section \<open>The classification as the specification words it\<close>

text \<open>
  The following definitions restate the color rule in the words of the specification:
  a palette of eight named categories (residential, commercial, industrial, retail,
  office, education, hospital, public), a table of synonyms, and the three tags tried in
  their priority order on the lowered string value; gray is the color when nothing
  matches. The rule is written over a list of category names, so that it can be read
  once with the eight categories of the specification (\<open>spec_color\<close>) and once with
  the word \<open>default\<close> added to them (\<open>amended_color\<close>). Both are compared with
  \<open>footprint_color\<close> below.
\<close>

definition spec_palette :: "string list" where
  "spec_palette = [''residential'', ''commercial'', ''industrial'', ''retail'', ''office'',
     ''education'', ''hospital'', ''public'']"

definition spec_synonyms :: "(string \<times> string) list" where
  "spec_synonyms =
     [(''apartments'', ''residential''), (''house'', ''residential''),
      (''retail'', ''retail''), (''shop'', ''retail''), (''mall'', ''retail''),
      (''commercial'', ''commercial''), (''hotel'', ''commercial''),
      (''industrial'', ''industrial''), (''warehouse'', ''industrial''),
      (''school'', ''education''), (''university'', ''education''), (''college'', ''education''),
      (''hospital'', ''hospital''), (''clinic'', ''hospital''),
      (''office'', ''office'')]"

definition category_in :: "string list \<Rightarrow> string \<Rightarrow> string option" where
  "category_in names w = (if w \<in> set names then Some w else map_of spec_synonyms w)"

fun first_match_in :: "string list \<Rightarrow> attrs \<Rightarrow> string list \<Rightarrow> string option" where
  "first_match_in names a [] = None"
| "first_match_in names a (k # ks) =
     (case a k of
        Some (PyStr s) \<Rightarrow>
          (case category_in names (lower s) of
             Some c \<Rightarrow> Some c
           | None \<Rightarrow> first_match_in names a ks)
      | _ \<Rightarrow> first_match_in names a ks)"

definition color_in :: "string list \<Rightarrow> attrs \<Rightarrow> rgba" where
  "color_in names a =
     (case first_match_in names a [''building:use'', ''landuse'', ''building''] of
        Some c \<Rightarrow> the (COLOR_MAP c)
      | None \<Rightarrow> the (COLOR_MAP ''default''))"

definition spec_color :: "attrs \<Rightarrow> rgba" where
  "spec_color a = color_in spec_palette a"

definition amended_color :: "attrs \<Rightarrow> rgba" where
  "amended_color a = color_in (spec_palette @ [''default'']) a"

text \<open>
  The height rule in the words of the specification: of the keys of a rule, in their
  order, the first whose value is a number decides, where a value is a number when the
  conversion of the code succeeds on it and does not give NaN; an explicit height is
  taken as it is, levels give max(levels * 3.2, 3.0), and 3.0 is the default.
\<close>

fun spec_first_number :: "(pyval \<Rightarrow> error + pyfloat) \<Rightarrow> attrs \<Rightarrow> string list \<Rightarrow> pyfloat option" where
  "spec_first_number conv a [] = None"
| "spec_first_number conv a (k # ks) =
     (case a k of
        None \<Rightarrow> spec_first_number conv a ks
      | Some v \<Rightarrow>
          (case conv v of
             Inr x \<Rightarrow> if x = NaN then spec_first_number conv a ks else Some x
           | Inl _ \<Rightarrow> spec_first_number conv a ks))"

definition spec_height :: "attrs \<Rightarrow> pyfloat" where
  "spec_height a =
     (case spec_first_number height_of_value a [''height'', ''building:height''] of
        Some h \<Rightarrow> h
      | None \<Rightarrow>
          (case spec_first_number float_of_value a [''building:levels'', ''levels''] of
             Some levels \<Rightarrow> py_max (py_mul levels (Fin (32 / 10))) (Fin 3)
           | None \<Rightarrow> Fin 3))"

text \<open>The nine quadruples of the palette.\<close>

definition PALETTE :: "rgba set" where
  "PALETTE = {(80, 160, 255, 255), (255, 160, 60, 255), (180, 180, 180, 255),
     (255, 120, 120, 255), (255, 210, 80, 255), (160, 120, 255, 255),
     (250, 120, 200, 255), (120, 220, 180, 255), (200, 200, 200, 255)}"

section \<open>Words of the specification about the messages\<close>

text \<open>
  A message suggests a wider search when it speaks of the radius (\<open>radio\<close> in the
  language of the messages).
\<close>

definition mentions_radius :: "string \<Rightarrow> bool" where
  "mentions_radius msg = sublist ''radio'' msg"

section \<open>A test double for the external libraries\<close>

text \<open>
  A small family of shapes stands for the library's polygons in the examples: a square
  of a given side; a sliver with no area (such as a triangle with a repeated point),
  which the zero-distance buffer turns into an empty polygon; a bow tie, which it splits
  into two squares; a broken outline, for which it returns no polygon at all; and a
  pinched outline, a valid polygon on which the extrusion fails until it is buffered.
  The simplification raises on the broken outline.
\<close>

datatype shape = Square rat | Sliver | Bowtie rat rat | Broken | Pinched rat

fun shape_valid :: "shape \<Rightarrow> bool" where
  "shape_valid (Square s) = (0 < s)"
| "shape_valid (Pinched s) = (0 < s)"
| "shape_valid _ = False"

fun shape_area :: "shape \<Rightarrow> pyfloat" where
  "shape_area (Square s) = Fin (s * s)"
| "shape_area (Pinched s) = Fin (s * s)"
| "shape_area (Bowtie a b) = Fin (a * a + b * b)"
| "shape_area _ = Fin 0"

fun shape_buffer :: "shape \<Rightarrow> rat \<Rightarrow> shape geometry" where
  "shape_buffer (Square s) d = Polygon (Square (s + 2 * d))"
| "shape_buffer (Pinched s) d = Polygon (Square (s + 2 * d))"
| "shape_buffer Sliver d = Polygon Sliver"
| "shape_buffer (Bowtie a b) d = MultiPolygon [Square (a + 2 * d), Square (b + 2 * d)]"
| "shape_buffer Broken d = OtherGeometry"

fun shape_extrude_error :: "shape geometry \<Rightarrow> pyfloat \<Rightarrow> error option" where
  "shape_extrude_error (Polygon (Square s)) h =
     (if 0 < s then None else Some (ValueError ''no faces''))"
| "shape_extrude_error (Polygon _) h = Some (ValueError ''triangulation failed'')"
| "shape_extrude_error _ h = Some (ValueError ''not a polygon'')"

fun shape_simplify :: "shape geometry \<Rightarrow> rat \<Rightarrow> error + shape geometry" where
  "shape_simplify (Polygon Broken) tol = Inl (OtherException ''GEOSException'')"
| "shape_simplify g tol = Inr g"

text \<open>
  The double answers every download with \<open>source\<close>, estimates the same UTM zone for
  every collection and leaves coordinates as they are.
\<close>

definition double_env :: "(error + shape gdf) \<Rightarrow> shape env" where
  "double_env source =
     \<lparr>is_valid = shape_valid,
      area = shape_area,
      buffer = shape_buffer,
      extrude_error = shape_extrude_error,
      bbox_from_point = (\<lambda>(la, lo) r. (la, lo, la, lo)),
      features_from_bbox = (\<lambda>box tags. source),
      estimate_utm_crs = (\<lambda>g. Inr (EPSG 32614)),
      reproject = (\<lambda>c0 c g. g),
      explode_error = (\<lambda>rs. None),
      simplify_geometry = shape_simplify\<rparr>"

definition polygon_row :: "shape \<Rightarrow> attrs \<Rightarrow> shape row" where
  "polygon_row p a = \<lparr>geometry = Some (Polygon p), attrs = a\<rparr>"

definition source_of :: "shape row list \<Rightarrow> error + shape gdf" where
  "source_of rs = Inr \<lparr>crs = Some (EPSG 4326), rows = rs\<rparr>"

definition demo_cfg :: "pyfloat \<Rightarrow> pyfloat \<Rightarrow> pyfloat \<Rightarrow> OSM3DConfig" where
  "demo_cfg la lo r =
     \<lparr>lat = la, lon = lo, radius_m = r, simplify = True, merge_multipolygons = True\<rparr>"

section \<open>Properties of the color classifier\<close>

lemma COLOR_MAP_palette: "COLOR_MAP k = Some c \<Longrightarrow> c \<in> PALETTE"
  unfolding COLOR_MAP_def PALETTE_def map_of.simps fun_upd_def
  by (simp only: split: if_splits) auto

lemma color_of_word_source: "color_of_word w = Some c \<Longrightarrow> \<exists>k. COLOR_MAP k = Some c"
  unfolding color_of_word_def
  by (simp only: option.distinct split: if_splits) blast+

lemma color_loop_palette: "color_loop a ks = Some c \<Longrightarrow> c \<in> PALETTE"
proof (induction ks)
  case Nil
  then show ?case by simp
next
  case (Cons k ks)
  then show ?case
    by (auto split: option.splits pyval.splits dest!: color_of_word_source
             intro: COLOR_MAP_palette)
qed

lemma default_palette: "the (COLOR_MAP ''default'') \<in> PALETTE"
  by (simp add: COLOR_MAP_def PALETTE_def)

lemma footprint_color_palette: "footprint_color a \<in> PALETTE"
proof (cases "color_loop a [''building:use'', ''landuse'', ''building'']")
  case None
  then show ?thesis
    unfolding footprint_color_def by (simp only: option.case default_palette)
next
  case (Some c)
  then have "c \<in> PALETTE" by (rule color_loop_palette)
  with Some show ?thesis
    unfolding footprint_color_def by (simp only: option.case)
qed

lemma palette_alpha: "c \<in> PALETTE \<Longrightarrow> snd (snd (snd c)) = 255"
  unfolding PALETTE_def by auto

lemma color_loop_skip_num:
  "color_loop (a(k \<mapsto> PyNum x)) ks = color_loop (a(k := None)) ks"
  by (induction ks) (auto split: option.splits pyval.splits)

lemma color_loop_skip_none:
  "color_loop (a(k \<mapsto> PyNone)) ks = color_loop (a(k := None)) ks"
  by (induction ks) (auto split: option.splits pyval.splits)

lemma dom_COLOR_MAP: "dom COLOR_MAP = set (spec_palette @ [''default''])"
  unfolding COLOR_MAP_def spec_palette_def dom_map_of_conv_image_fst by simp

lemma color_of_word_amended:
  "color_of_word w =
     (case category_in (spec_palette @ [''default'']) w of
        None \<Rightarrow> None
      | Some c \<Rightarrow> COLOR_MAP c)"
proof (cases "w \<in> set (spec_palette @ [''default''])")
  case True
  then show ?thesis
    by (simp add: color_of_word_def category_in_def dom_COLOR_MAP)
next
  case False
  then have "color_of_word w =
      (case map_of spec_synonyms w of None \<Rightarrow> None | Some c \<Rightarrow> COLOR_MAP c)"
    unfolding color_of_word_def dom_COLOR_MAP spec_synonyms_def spec_palette_def
    by simp
  with False show ?thesis by (simp add: category_in_def)
qed

lemma category_defined:
  assumes "category_in (spec_palette @ [''default'']) w = Some c"
  shows "\<exists>q. COLOR_MAP c = Some q"
proof -
  have "c \<in> set (spec_palette @ [''default''])"
  proof (cases "w \<in> set (spec_palette @ [''default''])")
    case True
    with assms show ?thesis by (simp add: category_in_def)
  next
    case False
    with assms have "map_of spec_synonyms w = Some c" by (simp add: category_in_def)
    then have "(w, c) \<in> set spec_synonyms" by (rule map_of_SomeD)
    then show ?thesis unfolding spec_synonyms_def spec_palette_def by auto
  qed
  then show ?thesis using dom_COLOR_MAP by blast
qed

lemma first_match_defined:
  "first_match_in (spec_palette @ [''default'']) a ks = Some c \<Longrightarrow> \<exists>q. COLOR_MAP c = Some q"
  by (induction ks) (auto split: option.splits pyval.splits dest: category_defined)

lemma color_loop_amended:
  "color_loop a ks =
     (case first_match_in (spec_palette @ [''default'']) a ks of
        None \<Rightarrow> None
      | Some c \<Rightarrow> COLOR_MAP c)"
proof (induction ks)
  case Nil
  show ?case by simp
next
  case (Cons k ks)
  show ?case
  proof (cases "a k")
    case None
    with Cons show ?thesis by simp
  next
    case (Some v)
    show ?thesis
    proof (cases v)
      case (PyStr s)
      show ?thesis
      proof (cases "category_in (spec_palette @ [''default'']) (lower s)")
        case None
        with Some PyStr Cons show ?thesis by (simp add: color_of_word_amended)
      next
        case (Some c)
        then obtain q where "COLOR_MAP c = Some q" using category_defined by blast
        with Some \<open>a k = Some v\<close> PyStr show ?thesis by (simp add: color_of_word_amended)
      qed
    qed (use Some Cons in simp_all)
  qed
qed

lemma footprint_color_amended: "footprint_color a = amended_color a"
proof (cases "first_match_in (spec_palette @ [''default'']) a
                [''building:use'', ''landuse'', ''building'']")
  case None
  then show ?thesis
    unfolding footprint_color_def amended_color_def color_in_def color_loop_amended
    by (simp only: option.case)
next
  case (Some c)
  moreover have "\<exists>q. COLOR_MAP c = Some q"
    using Some by (rule first_match_defined)
  ultimately show ?thesis
    unfolding footprint_color_def amended_color_def color_in_def color_loop_amended
    by (auto simp only: option.case option.sel)
qed

text \<open>
  The word \<open>default\<close> is no synonym, so the two readings of the rule part only on a
  tag whose lowered value is that word.
\<close>

lemma category_in_agree:
  "w \<noteq> ''default'' \<Longrightarrow> category_in (spec_palette @ [''default'']) w = category_in spec_palette w"
  by (simp add: category_in_def)

lemma first_match_agree:
  assumes "\<forall>k \<in> set ks. \<forall>s. a k = Some (PyStr s) \<longrightarrow> lower s \<noteq> ''default''"
  shows "first_match_in (spec_palette @ [''default'']) a ks = first_match_in spec_palette a ks"
  using assms
proof (induction ks)
  case Nil
  show ?case by simp
next
  case (Cons k ks)
  then have ih: "first_match_in (spec_palette @ [''default'']) a ks
      = first_match_in spec_palette a ks"
    by simp
  show ?case
  proof (cases "a k")
    case None
    with ih show ?thesis by simp
  next
    case (Some v)
    show ?thesis
    proof (cases v)
      case (PyStr s)
      with Some Cons.prems have "lower s \<noteq> ''default''" by simp
      then have "category_in (spec_palette @ [''default'']) (lower s)
          = category_in spec_palette (lower s)"
        by (rule category_in_agree)
      with Some PyStr ih show ?thesis by (simp split: option.splits)
    qed (use Some ih in simp_all)
  qed
qed

text \<open>
  C4: the color is found by trying the tags \<open>building:use\<close>, \<open>landuse\<close> and
  \<open>building\<close> in this order on the lowered string value; the first tag whose value is
  a key of \<open>COLOR_MAP\<close> (one of the eight palette categories, or the word
  \<open>default\<close>) or a synonym of the table decides, and with no such tag the color is the
  default gray. On every mapping in which none of the three tags holds the word
  \<open>default\<close> this is the rule of the eight categories. \<open>Residential\<close> under
  \<open>building:use\<close> gives the residential color, \<open>warehouse\<close> under \<open>building\<close> the
  industrial one, the empty mapping the default gray.
\<close>

theorem footprint_color_priority:
  "footprint_color a = amended_color a \<and>
   ((\<forall>k \<in> set [''building:use'', ''landuse'', ''building''].
       \<forall>s. a k = Some (PyStr s) \<longrightarrow> lower s \<noteq> ''default'') \<longrightarrow>
      footprint_color a = spec_color a) \<and>
   footprint_color [''building:use'' \<mapsto> PyStr ''Residential''] = the (COLOR_MAP ''residential'') \<and>
   footprint_color [''building:use'' \<mapsto> PyStr ''Residential''] = (80, 160, 255, 255) \<and>
   footprint_color [''building'' \<mapsto> PyStr ''warehouse''] = the (COLOR_MAP ''industrial'') \<and>
   footprint_color [''building'' \<mapsto> PyStr ''warehouse''] = (180, 180, 180, 255) \<and>
   footprint_color Map.empty = the (COLOR_MAP ''default'') \<and>
   footprint_color Map.empty = (200, 200, 200, 255)"
proof -
  have 1: "footprint_color [''building:use'' \<mapsto> PyStr ''Residential''] = (80, 160, 255, 255)"
    by code_simp
  have 2: "footprint_color [''building'' \<mapsto> PyStr ''warehouse''] = (180, 180, 180, 255)"
    by code_simp
  have 3: "footprint_color Map.empty = (200, 200, 200, 255)"
    by code_simp
  have 4: "the (COLOR_MAP ''residential'') = (80, 160, 255, 255)"
    by code_simp
  have 5: "the (COLOR_MAP ''industrial'') = (180, 180, 180, 255)"
    by code_simp
  have 6: "the (COLOR_MAP ''default'') = (200, 200, 200, 255)"
    by code_simp
  have 7: "(\<forall>k \<in> set [''building:use'', ''landuse'', ''building''].
       \<forall>s. a k = Some (PyStr s) \<longrightarrow> lower s \<noteq> ''default'') \<longrightarrow>
      footprint_color a = spec_color a"
  proof
    assume "\<forall>k \<in> set [''building:use'', ''landuse'', ''building''].
       \<forall>s. a k = Some (PyStr s) \<longrightarrow> lower s \<noteq> ''default''"
    then have "first_match_in (spec_palette @ [''default'']) a
          [''building:use'', ''landuse'', ''building'']
        = first_match_in spec_palette a [''building:use'', ''landuse'', ''building'']"
      by (rule first_match_agree)
    then have "amended_color a = spec_color a"
      by (simp only: amended_color_def spec_color_def color_in_def)
    then show "footprint_color a = spec_color a"
      by (simp only: footprint_color_amended)
  qed
  from footprint_color_amended [of a] 7 show ?thesis
    unfolding 1 2 3 4 5 6 by simp
qed

theorem footprint_color_priority_witness:
  "lower ''Residential'' \<noteq> ''default'' \<and>
   footprint_color [''building:use'' \<mapsto> PyStr ''Residential'']
     = spec_color [''building:use'' \<mapsto> PyStr ''Residential''] \<and>
   spec_color [''building:use'' \<mapsto> PyStr ''Residential''] = (80, 160, 255, 255) \<and>
   amended_color [''building:use'' \<mapsto> PyStr ''Residential''] = (80, 160, 255, 255)"
proof -
  have 1: "lower ''Residential'' \<noteq> ''default''"
    by code_simp
  have 2: "spec_color [''building:use'' \<mapsto> PyStr ''Residential''] = (80, 160, 255, 255)"
    by code_simp
  have 3: "amended_color [''building:use'' \<mapsto> PyStr ''Residential''] = (80, 160, 255, 255)"
    by code_simp
  have 4: "\<forall>k \<in> set [''building:use'', ''landuse'', ''building''].
       \<forall>s. [''building:use'' \<mapsto> PyStr ''Residential''] k = Some (PyStr s) \<longrightarrow>
           lower s \<noteq> ''default''"
    using 1 by simp
  from footprint_color_priority [of "[''building:use'' \<mapsto> PyStr ''Residential'']"] 4
  have "footprint_color [''building:use'' \<mapsto> PyStr ''Residential'']
     = spec_color [''building:use'' \<mapsto> PyStr ''Residential'']"
    by blast
  with 1 2 3 show ?thesis by blast
qed

theorem default_word_matches:
  "footprint_color [''building:use'' \<mapsto> PyStr ''default'', ''building'' \<mapsto> PyStr ''warehouse'']
     = (200, 200, 200, 255) \<and>
   spec_color [''building:use'' \<mapsto> PyStr ''default'', ''building'' \<mapsto> PyStr ''warehouse'']
     = (180, 180, 180, 255)"
  by code_simp

lemma COLOR_MAP_ranI: "COLOR_MAP k = Some c \<Longrightarrow> c \<in> ran COLOR_MAP"
  by (rule ranI)

lemma PALETTE_ran: "PALETTE = ran COLOR_MAP"
proof
  have f: "COLOR_MAP ''residential'' = Some (80, 160, 255, 255)"
    "COLOR_MAP ''commercial'' = Some (255, 160, 60, 255)"
    "COLOR_MAP ''industrial'' = Some (180, 180, 180, 255)"
    "COLOR_MAP ''retail'' = Some (255, 120, 120, 255)"
    "COLOR_MAP ''office'' = Some (255, 210, 80, 255)"
    "COLOR_MAP ''education'' = Some (160, 120, 255, 255)"
    "COLOR_MAP ''hospital'' = Some (250, 120, 200, 255)"
    "COLOR_MAP ''public'' = Some (120, 220, 180, 255)"
    "COLOR_MAP ''default'' = Some (200, 200, 200, 255)"
    by code_simp+
  show "PALETTE \<subseteq> ran COLOR_MAP"
    unfolding PALETTE_def
    by (simp only: insert_subset empty_subsetI simp_thms f [THEN COLOR_MAP_ranI])
  show "ran COLOR_MAP \<subseteq> PALETTE"
  proof
    fix c assume "c \<in> ran COLOR_MAP"
    then obtain k where "COLOR_MAP k = Some c" unfolding ran_def by blast
    then show "c \<in> PALETTE" by (rule COLOR_MAP_palette)
  qed
qed

text \<open>
  C10: the color classifier has no failing branch and returns, for every attribute
  mapping, one of the nine quadruples of the palette, each with fourth component 255.
  A value that is a number or \<open>None\<close> is passed over as if the tag were not there;
  the empty mapping gives the default gray.
\<close>

theorem footprint_color_total:
  "footprint_color a \<in> PALETTE \<and>
   card PALETTE = 9 \<and>
   PALETTE = ran COLOR_MAP \<and>
   snd (snd (snd (footprint_color a))) = 255 \<and>
   footprint_color (a(k \<mapsto> PyNum x)) = footprint_color (a(k := None)) \<and>
   footprint_color (a(k \<mapsto> PyNone)) = footprint_color (a(k := None)) \<and>
   footprint_color Map.empty = (200, 200, 200, 255)"
proof -
  have 1: "card PALETTE = 9"
    by (simp add: PALETTE_def)
  have 2: "footprint_color Map.empty = (200, 200, 200, 255)"
    by code_simp
  have 3: "footprint_color (a(k \<mapsto> PyNum x)) = footprint_color (a(k := None))"
    unfolding footprint_color_def color_loop_skip_num ..
  have 4: "footprint_color (a(k \<mapsto> PyNone)) = footprint_color (a(k := None))"
    unfolding footprint_color_def color_loop_skip_none ..
  have 5: "snd (snd (snd (footprint_color a))) = 255"
    using footprint_color_palette by (rule palette_alpha)
  from footprint_color_palette [of a] 1 PALETTE_ran 2 3 4 5 show ?thesis
    by (intro conjI)
qed

section \<open>Properties of the height classifier\<close>

lemma height_of_value_error: "height_of_value v = Inl e \<Longrightarrow> \<exists>m. e = ValueError m"
  by (auto simp: height_of_value_def split: pyval.splits option.splits)

lemma float_of_value_error:
  "not_in_missing v \<Longrightarrow> float_of_value v = Inl e \<Longrightarrow> \<exists>m. e = ValueError m"
  by (auto simp: float_of_value_def not_in_missing_def split: pyval.splits option.splits)

text \<open>
  A loop over the keys cannot fail when the conversion raises nothing but
  \<open>ValueError\<close> on the values that pass the test of the three markers.
\<close>

lemma first_float_total:
  assumes "\<And>v e. not_in_missing v \<Longrightarrow> conv v = Inl e \<Longrightarrow> \<exists>m. e = ValueError m"
  shows "\<exists>r. first_float conv a ks = Inr r"
proof (induction ks)
  case Nil
  show ?case by simp
next
  case (Cons k ks)
  show ?case
  proof (cases "a k")
    case None
    with Cons show ?thesis by simp
  next
    case (Some v)
    show ?thesis
    proof (cases "not_in_missing v")
      case False
      with Some Cons show ?thesis by simp
    next
      case True
      show ?thesis
      proof (cases "conv v")
        case (Inr x)
        with Some True show ?thesis by simp
      next
        case (Inl e)
        with assms True obtain m where "e = ValueError m" by blast
        with Inl Some True Cons show ?thesis by simp
      qed
    qed
  qed
qed

lemma footprint_height_total: "\<exists>h. footprint_height a = Inr h"
proof -
  obtain r1 where r1: "first_float height_of_value a [''height'', ''building:height''] = Inr r1"
    using first_float_total [of height_of_value] height_of_value_error by blast
  obtain r2 where r2: "first_float float_of_value a [''building:levels'', ''levels''] = Inr r2"
    using first_float_total [of float_of_value] float_of_value_error by blast
  show ?thesis
    unfolding footprint_height_def r1 r2 by (simp split: option.splits)
qed

lemma py_max_floor: "h \<noteq> NaN \<Longrightarrow> py_le MIN_HEIGHT_M (py_max h MIN_HEIGHT_M)"
  by (cases h) (auto simp: py_max_def MIN_HEIGHT_M_def)

lemma py_max_nan_or_floor:
  "py_max x MIN_HEIGHT_M = NaN \<or> py_le MIN_HEIGHT_M (py_max x MIN_HEIGHT_M)"
  by (cases x) (auto simp: py_max_def MIN_HEIGHT_M_def)

text \<open>
  On mappings in which no value converts to NaN, the code follows the rule order of the
  specification; the three markers of the code's test are values that are not numbers.
\<close>

lemma marker_values:
  "height_of_value (PyStr '''') = Inl (ValueError ''could not convert string to float'')"
  "height_of_value (PyStr ''NaN'') = Inr NaN"
  "float_of_value (PyStr '''') = Inl (ValueError ''could not convert string to float'')"
  "float_of_value (PyStr ''NaN'') = Inr NaN"
  by code_simp+

lemma missing_not_number_height:
  "\<not> not_in_missing v \<Longrightarrow> (\<exists>e. height_of_value v = Inl e) \<or> height_of_value v = Inr NaN"
  using marker_values by (auto simp: not_in_missing_def height_of_value_def)

lemma missing_not_number_float:
  "\<not> not_in_missing v \<Longrightarrow> (\<exists>e. float_of_value v = Inl e) \<or> float_of_value v = Inr NaN"
  using marker_values by (auto simp: not_in_missing_def float_of_value_def)

lemma first_float_spec:
  assumes err: "\<And>v e. not_in_missing v \<Longrightarrow> conv v = Inl e \<Longrightarrow> \<exists>m. e = ValueError m"
    and mis: "\<And>v. \<not> not_in_missing v \<Longrightarrow> (\<exists>e. conv v = Inl e) \<or> conv v = Inr NaN"
    and nonan: "\<forall>k \<in> set ks. \<forall>v. a k = Some v \<and> not_in_missing v \<longrightarrow> conv v \<noteq> Inr NaN"
  shows "first_float conv a ks = Inr (spec_first_number conv a ks)"
  using nonan
proof (induction ks)
  case Nil
  show ?case by simp
next
  case (Cons k ks)
  then have ih: "first_float conv a ks = Inr (spec_first_number conv a ks)" by simp
  show ?case
  proof (cases "a k")
    case None
    with ih show ?thesis by simp
  next
    case (Some v)
    show ?thesis
    proof (cases "not_in_missing v")
      case False
      from mis [OF False] Some False ih show ?thesis by auto
    next
      case True
      show ?thesis
      proof (cases "conv v")
        case (Inl e)
        with err True obtain m where "e = ValueError m" by blast
        with Inl Some True ih show ?thesis by simp
      next
        case (Inr x)
        from Cons.prems Some True have "conv v \<noteq> Inr NaN" by simp
        with Inr have "x \<noteq> NaN" by simp
        with Inr Some True show ?thesis by simp
      qed
    qed
  qed
qed

lemma footprint_height_rules:
  assumes "\<forall>k \<in> set [''height'', ''building:height'']. \<forall>v. a k = Some v \<and> not_in_missing v \<longrightarrow>
             height_of_value v \<noteq> Inr NaN"
    and "\<forall>k \<in> set [''building:levels'', ''levels'']. \<forall>v. a k = Some v \<and> not_in_missing v \<longrightarrow>
             float_of_value v \<noteq> Inr NaN"
  shows "footprint_height a = Inr (spec_height a)"
proof -
  have 1: "first_float height_of_value a [''height'', ''building:height'']
      = Inr (spec_first_number height_of_value a [''height'', ''building:height''])"
    using height_of_value_error missing_not_number_height assms(1)
    by (rule first_float_spec)
  have 2: "first_float float_of_value a [''building:levels'', ''levels'']
      = Inr (spec_first_number float_of_value a [''building:levels'', ''levels''])"
    using float_of_value_error missing_not_number_float assms(2)
    by (rule first_float_spec)
  show ?thesis
    unfolding footprint_height_def spec_height_def 1 2
    by (simp add: DEFAULT_LEVEL_HEIGHT_M_def MIN_HEIGHT_M_def split: option.splits)
qed

text \<open>
  C1: the height follows the rule order: a \<open>height\<close> or \<open>building:height\<close> value
  that is a number is returned as it is, otherwise \<open>building:levels\<close> or \<open>levels\<close>
  gives max(levels * 3.2, 3.0), otherwise the height is 3.0, and a value that is not a
  number counts as absent. The three examples of the claim hold on the code. With the
  float NaN under \<open>height\<close>, the value that a data frame holds for a missing tag, the
  code does not fall through to the levels: it returns NaN, although the same mapping
  without that entry gives 12.8, and so does the rule as worded (\<open>spec_height\<close>).
  The test against \<open>None\<close>, the empty string and the string \<open>NaN\<close> in the code
  does not catch the float.
\<close>

theorem footprint_height_nan_not_absent:
  "footprint_height [''height'' \<mapsto> PyStr ''12m''] = Inr (Fin 12) \<and>
   footprint_height [''building:levels'' \<mapsto> PyStr ''4''] = Inr (Fin (128 / 10)) \<and>
   footprint_height Map.empty = Inr (Fin 3) \<and>
   footprint_height [''height'' \<mapsto> PyStr ''NaN'', ''building:levels'' \<mapsto> PyStr ''4'']
     = Inr (Fin (128 / 10)) \<and>
   footprint_height [''height'' \<mapsto> PyNum NaN, ''building:levels'' \<mapsto> PyStr ''4'']
     = Inr NaN \<and>
   spec_height [''height'' \<mapsto> PyNum NaN, ''building:levels'' \<mapsto> PyStr ''4'']
     = Fin (128 / 10)"
  by code_simp

text \<open>
  C2: the classifier returns a float for every attribute mapping, never an exception
  and never nothing. The value is not always at least 3.0: an explicit height is
  returned as it is. When the value is a number, it is at least 3.0 unless it comes from
  a \<open>height\<close> or \<open>building:height\<close> tag, and the height that the pipeline hands on,
  \<open>max(height, MIN_HEIGHT_M)\<close>, is then at least 3.0 in every case.
\<close>

theorem footprint_height_floor:
  "\<exists>h. footprint_height a = Inr h \<and>
       (h = NaN \<or> py_le MIN_HEIGHT_M (py_max h MIN_HEIGHT_M)) \<and>
       (h = NaN \<or> py_le MIN_HEIGHT_M h \<or>
        (\<exists>x. first_float height_of_value a [''height'', ''building:height''] = Inr (Some x)))"
proof -
  obtain r1 where r1: "first_float height_of_value a [''height'', ''building:height''] = Inr r1"
    using first_float_total [of height_of_value] height_of_value_error by blast
  obtain r2 where r2: "first_float float_of_value a [''building:levels'', ''levels''] = Inr r2"
    using first_float_total [of float_of_value] float_of_value_error by blast
  obtain h where h: "footprint_height a = Inr h"
    using footprint_height_total by blast
  have 1: "h = NaN \<or> py_le MIN_HEIGHT_M (py_max h MIN_HEIGHT_M)"
    using py_max_floor by blast
  have 2: "h = NaN \<or> py_le MIN_HEIGHT_M h \<or> (\<exists>x. r1 = Some x)"
  proof (cases r1)
    case (Some x)
    then show ?thesis by simp
  next
    case None
    show ?thesis
    proof (cases r2)
      case None
      with \<open>r1 = None\<close> h r1 r2 have "h = MIN_HEIGHT_M"
        by (simp add: footprint_height_def)
      then show ?thesis by (simp add: MIN_HEIGHT_M_def)
    next
      case (Some l)
      with \<open>r1 = None\<close> h r1 r2 have "h = py_max (py_mul l DEFAULT_LEVEL_HEIGHT_M) MIN_HEIGHT_M"
        by (simp add: footprint_height_def)
      then show ?thesis using py_max_nan_or_floor by auto
    qed
  qed
  from h 1 2 r1 show ?thesis by simp
qed

theorem footprint_height_below_floor:
  "footprint_height [''height'' \<mapsto> PyStr ''1''] = Inr (Fin 1) \<and>
   \<not> py_le MIN_HEIGHT_M (Fin 1)"
  by code_simp

section \<open>Properties of the mesh builder and the scene assembler\<close>

text \<open>The fields of the test double.\<close>

lemma double_env_simps [simp]:
  "is_valid (double_env s) = shape_valid"
  "area (double_env s) = shape_area"
  "buffer (double_env s) = shape_buffer"
  "extrude_error (double_env s) = shape_extrude_error"
  "bbox_from_point (double_env s) (la, lo) r = (la, lo, la, lo)"
  "features_from_bbox (double_env s) box tags = s"
  "estimate_utm_crs (double_env s) gd = Inr (EPSG 32614)"
  "reproject (double_env s) c0 c g = g"
  "explode_error (double_env s) rs = None"
  "simplify_geometry (double_env s) = shape_simplify"
  by (simp_all add: double_env_def)

text \<open>The order on floats, as far as the choice of the largest part needs it.\<close>

lemma py_lt_irrefl: "\<not> py_lt a a"
  by (cases a) auto

lemma py_lt_step: "py_lt a b \<Longrightarrow> \<not> py_lt a c \<Longrightarrow> \<not> py_lt b c"
  by (cases a; cases b; cases c) auto

lemma py_lt_trans: "py_lt a b \<Longrightarrow> py_lt b c \<Longrightarrow> py_lt a c"
  by (cases a; cases b; cases c) auto

lemma py_lt_asym: "py_lt a b \<Longrightarrow> \<not> py_lt b a"
  by (cases a; cases b) auto

lemma max_area_from_best:
  "max_area_from env best gs \<in> set (best # gs) \<and>
   (\<forall>r \<in> set (best # gs). \<not> py_lt (area env (max_area_from env best gs)) (area env r)) \<and>
   (max_area_from env best gs = best \<or>
    py_lt (area env best) (area env (max_area_from env best gs)))"
proof (induction gs arbitrary: best)
  case Nil
  show ?case by (simp add: py_lt_irrefl)
next
  case (Cons g gs)
  show ?case
  proof (cases "py_lt (area env best) (area env g)")
    case True
    let ?res = "max_area_from env g gs"
    from Cons [of g] have ih: "?res \<in> set (g # gs)"
      "\<forall>r \<in> set (g # gs). \<not> py_lt (area env ?res) (area env r)"
      "?res = g \<or> py_lt (area env g) (area env ?res)"
      by blast+
    from ih(3) have up: "py_lt (area env best) (area env ?res)"
    proof
      assume "?res = g"
      with True show ?thesis by simp
    next
      assume "py_lt (area env g) (area env ?res)"
      with True show ?thesis by (rule py_lt_trans)
    qed
    then have "\<not> py_lt (area env ?res) (area env best)"
      by (rule py_lt_asym)
    with True ih up show ?thesis by auto
  next
    case False
    let ?res = "max_area_from env best gs"
    from Cons [of best] have ih: "?res \<in> set (best # gs)"
      "\<forall>r \<in> set (best # gs). \<not> py_lt (area env ?res) (area env r)"
      "?res = best \<or> py_lt (area env best) (area env ?res)"
      by blast+
    from ih(3) have "\<not> py_lt (area env ?res) (area env g)"
    proof
      assume "?res = best"
      with False show ?thesis by simp
    next
      assume "py_lt (area env best) (area env ?res)"
      then show ?thesis using False by (rule py_lt_step)
    qed
    with False ih show ?thesis by auto
  qed
qed

text \<open>
  The two loops only append to the scene, and the counter follows its length; the outer
  loop cannot fail, because the height classifier cannot.
\<close>

lemma add_polys_grows:
  "\<exists>ms. add_polys env h c ps (sc, n) = (sc @ ms, n + length ms) \<and> length ms \<le> length ps"
proof (induction ps arbitrary: sc n)
  case Nil
  show ?case by simp
next
  case (Cons p ps)
  show ?case
  proof (cases "polygon_to_trimesh env p (py_max h MIN_HEIGHT_M)")
    case (Inl e)
    with Cons [of sc n] show ?thesis by auto
  next
    case (Inr m)
    from Cons [of "sc @ [m\<lparr>vertex_colors := Some c\<rparr>]" "n + 1"]
    obtain ms where "add_polys env h c ps (sc @ [m\<lparr>vertex_colors := Some c\<rparr>], n + 1) =
        ((sc @ [m\<lparr>vertex_colors := Some c\<rparr>]) @ ms, n + 1 + length ms)" "length ms \<le> length ps"
      by blast
    with Inr show ?thesis
      by (intro exI [of _ "m\<lparr>vertex_colors := Some c\<rparr> # ms"]) simp
  qed
qed


lemma add_rows_grows:
  "\<exists>ms. add_rows env rs (sc, n) = Inr (sc @ ms, n + length ms)"
proof (induction rs arbitrary: sc n)
  case Nil
  show ?case by simp
next
  case (Cons r rs)
  obtain h where h: "footprint_height (attrs r) = Inr h"
    using footprint_height_total by blast
  show ?case
  proof (cases "geometry r")
    case None
    with Cons [of sc n] show ?thesis by simp
  next
    case (Some geom)
    show ?thesis
    proof (cases geom)
      case OtherGeometry
      with Some h Cons [of sc n] show ?thesis by simp
    next
      case (Polygon p)
      obtain ms where ms: "add_polys env h (footprint_color (attrs r)) [p] (sc, n) =
          (sc @ ms, n + length ms)"
        using add_polys_grows by blast
      from Cons [of "sc @ ms" "n + length ms"] obtain ms' where
        "add_rows env rs (sc @ ms, n + length ms) = Inr ((sc @ ms) @ ms', n + length ms + length ms')"
        by blast
      with Some Polygon h ms show ?thesis
        by (intro exI [of _ "ms @ ms'"]) (simp del: add_polys.simps)
    next
      case (MultiPolygon ps)
      obtain ms where ms: "add_polys env h (footprint_color (attrs r)) ps (sc, n) =
          (sc @ ms, n + length ms)"
        using add_polys_grows by blast
      from Cons [of "sc @ ms" "n + length ms"] obtain ms' where
        "add_rows env rs (sc @ ms, n + length ms) = Inr ((sc @ ms) @ ms', n + length ms + length ms')"
        by blast
      with Some MultiPolygon h ms show ?thesis
        by (intro exI [of _ "ms @ ms'"]) (simp del: add_polys.simps)
    qed
  qed
qed


lemma add_rows_append:
  "add_rows env (rs1 @ rs2) st =
     (case add_rows env rs1 st of Inl e \<Rightarrow> Inl e | Inr st' \<Rightarrow> add_rows env rs2 st')"
proof (induction rs1 arbitrary: st)
  case Nil
  show ?case by simp
next
  case (Cons r rs1)
  obtain h where h: "footprint_height (attrs r) = Inr h"
    using footprint_height_total by blast
  show ?case
  proof (cases "geometry r")
    case None
    then show ?thesis by (simp add: Cons)
  next
    case (Some geom)
    with h show ?thesis
      by (cases geom) (simp_all add: Cons del: add_polys.simps)
  qed
qed


lemma add_rows_skip:
  assumes "geometry r = Some (Polygon p)"
    and "\<And>h. \<exists>e. polygon_to_trimesh env p h = Inl e"
  shows "add_rows env (r # rs) st = add_rows env rs st"
proof -
  obtain h where h: "footprint_height (attrs r) = Inr h"
    using footprint_height_total by blast
  obtain e where "polygon_to_trimesh env p (py_max h MIN_HEIGHT_M) = Inl e"
    using assms(2) by blast
  with assms(1) h show ?thesis by (cases st) simp
qed

text \<open>The extruder on a polygon that needs no repair and is not too small.\<close>

lemma py_max_idem: "py_max (py_max a b) b = py_max a b"
  by (simp add: py_max_def py_lt_irrefl)

lemma polygon_to_trimesh_sanitized:
  assumes "is_valid env poly" and "\<not> py_le (area env poly) TINY_AREA"
  shows "polygon_to_trimesh env poly h =
     (case extrude_error env (Polygon poly) (py_max h MIN_HEIGHT_M) of
        None \<Rightarrow> Inr \<lparr>footprint = Polygon poly, distance = py_max h MIN_HEIGHT_M,
                      vertex_colors = None\<rparr>
      | Some _ \<Rightarrow>
          (case extrude_error env (buffer env poly (5 / 100)) (py_max h MIN_HEIGHT_M) of
             None \<Rightarrow> Inr \<lparr>footprint = buffer env poly (5 / 100),
                           distance = py_max h MIN_HEIGHT_M, vertex_colors = None\<rparr>
           | Some e \<Rightarrow> Inl e))"
  using assms
  by (simp add: polygon_to_trimesh_def repair_def extrude_polygon_def split: option.splits)

text \<open>
  C5: for a sanitized polygon (valid, with area above 1e-12) and any height, the
  extruder calls the extrusion routine with the distance max(height, 3.0), that is 3.0
  for a height below 3.0 and the height itself otherwise; when that call succeeds the
  solid of the polygon is returned; when it fails, the routine is called once more, on
  the polygon buffered by 0.05 and with the same distance; when that fails too, the
  exception leaves \<open>_polygon_to_trimesh\<close>. A solid that is returned for the height
  \<open>x\<close> has the extrusion distance max(x, 3.0) and the polygon or its buffer as
  footprint. The caller has already taken max(height, 3.0); taking it twice changes
  nothing.
\<close>

theorem polygon_to_trimesh_retry:
  assumes "is_valid env poly" and "\<not> py_le (area env poly) TINY_AREA"
  shows "polygon_to_trimesh env poly h =
     (let d = (if py_lt h (Fin 3) then Fin 3 else h) in
      case extrude_error env (Polygon poly) d of
        None \<Rightarrow> Inr \<lparr>footprint = Polygon poly, distance = d, vertex_colors = None\<rparr>
      | Some _ \<Rightarrow>
          (case extrude_error env (buffer env poly (5 / 100)) d of
             None \<Rightarrow> Inr \<lparr>footprint = buffer env poly (5 / 100), distance = d,
                           vertex_colors = None\<rparr>
           | Some e \<Rightarrow> Inl e)) \<and>
     polygon_to_trimesh env poly (Fin x) =
     (case extrude_error env (Polygon poly) (Fin (max x 3)) of
        None \<Rightarrow> Inr \<lparr>footprint = Polygon poly, distance = Fin (max x 3),
                      vertex_colors = None\<rparr>
      | Some _ \<Rightarrow>
          (case extrude_error env (buffer env poly (5 / 100)) (Fin (max x 3)) of
             None \<Rightarrow> Inr \<lparr>footprint = buffer env poly (5 / 100), distance = Fin (max x 3),
                           vertex_colors = None\<rparr>
           | Some e \<Rightarrow> Inl e)) \<and>
     (\<forall>m. polygon_to_trimesh env poly (Fin x) = Inr m \<longrightarrow>
        distance m = Fin (max x 3) \<and>
        (footprint m = Polygon poly \<or> footprint m = buffer env poly (5 / 100))) \<and>
     py_max (py_max h MIN_HEIGHT_M) MIN_HEIGHT_M = py_max h MIN_HEIGHT_M \<and>
     py_max (Fin x) MIN_HEIGHT_M = Fin (max x 3)"
proof -
  have d: "py_max h MIN_HEIGHT_M = (if py_lt h (Fin 3) then Fin 3 else h)"
    by (simp add: py_max_def MIN_HEIGHT_M_def)
  have dx: "py_max (Fin x) MIN_HEIGHT_M = Fin (max x 3)"
    by (simp add: py_max_def MIN_HEIGHT_M_def max_def)
  have 1: "polygon_to_trimesh env poly h =
     (let d = (if py_lt h (Fin 3) then Fin 3 else h) in
      case extrude_error env (Polygon poly) d of
        None \<Rightarrow> Inr \<lparr>footprint = Polygon poly, distance = d, vertex_colors = None\<rparr>
      | Some _ \<Rightarrow>
          (case extrude_error env (buffer env poly (5 / 100)) d of
             None \<Rightarrow> Inr \<lparr>footprint = buffer env poly (5 / 100), distance = d,
                           vertex_colors = None\<rparr>
           | Some e \<Rightarrow> Inl e))"
    unfolding Let_def d [symmetric] using assms by (rule polygon_to_trimesh_sanitized)
  have 2: "polygon_to_trimesh env poly (Fin x) =
     (case extrude_error env (Polygon poly) (Fin (max x 3)) of
        None \<Rightarrow> Inr \<lparr>footprint = Polygon poly, distance = Fin (max x 3),
                      vertex_colors = None\<rparr>
      | Some _ \<Rightarrow>
          (case extrude_error env (buffer env poly (5 / 100)) (Fin (max x 3)) of
             None \<Rightarrow> Inr \<lparr>footprint = buffer env poly (5 / 100), distance = Fin (max x 3),
                           vertex_colors = None\<rparr>
           | Some e \<Rightarrow> Inl e))"
    unfolding dx [symmetric] using assms by (rule polygon_to_trimesh_sanitized)
  have 3: "\<forall>m. polygon_to_trimesh env poly (Fin x) = Inr m \<longrightarrow>
        distance m = Fin (max x 3) \<and>
        (footprint m = Polygon poly \<or> footprint m = buffer env poly (5 / 100))"
    unfolding 2 by (auto split: option.splits)
  from 1 2 3 py_max_idem [of h MIN_HEIGHT_M] dx show ?thesis
    by (intro conjI)
qed

theorem polygon_to_trimesh_retry_witness:
  "is_valid (double_env (source_of [])) (Pinched 1) \<and>
   \<not> py_le (area (double_env (source_of [])) (Pinched 1)) TINY_AREA \<and>
   extrude_error (double_env (source_of [])) (Polygon (Pinched 1)) (Fin 3)
     = Some (ValueError ''triangulation failed'') \<and>
   polygon_to_trimesh (double_env (source_of [])) (Pinched 1) (Fin 1) =
     Inr \<lparr>footprint = Polygon (Square (11 / 10)), distance = Fin 3, vertex_colors = None\<rparr> \<and>
   polygon_to_trimesh (double_env (source_of [])) (Square 2) (Fin 10) =
     Inr \<lparr>footprint = Polygon (Square 2), distance = Fin 10, vertex_colors = None\<rparr>"
  using polygon_to_trimesh_retry [of "double_env (source_of [])" "Pinched 1" "Fin 1" 1]
    polygon_to_trimesh_retry [of "double_env (source_of [])" "Square 2" "Fin 10" 10]
  by (simp add: TINY_AREA_def)

lemma repair_cases:
  "(\<not> is_valid env p \<and> buffer env p 0 = OtherGeometry \<longrightarrow>
      repair env p = Inl (ValueError ''Invalid polygon after buffer(0)''))"
  "(\<not> is_valid env p \<and> buffer env p 0 = Polygon q \<longrightarrow> repair env p = Inr q)"
  "(is_valid env p \<longrightarrow> repair env p = Inr p)"
  by (simp_all add: repair_def)

lemma repair_largest:
  assumes "\<not> is_valid env p" and "buffer env p 0 = MultiPolygon (q # qs)"
  shows "\<exists>b \<in> set (q # qs). repair env p = Inr b \<and>
           (\<forall>r \<in> set (q # qs). \<not> py_lt (area env b) (area env r))"
proof -
  have "repair env p = Inr (max_area_from env q qs)"
    using assms by (simp add: repair_def max_by_area_def)
  with max_area_from_best [of env q qs] show ?thesis by blast
qed

lemma too_small:
  assumes "repair env p = Inr b" and "py_le (area env b) TINY_AREA"
  shows "polygon_to_trimesh env p h = Inl (ValueError ''Polygon too small'')"
  using assms by (simp add: polygon_to_trimesh_def)

lemma rejected_fails:
  assumes "(\<exists>e. repair env p = Inl e) \<or> (\<exists>b. repair env p = Inr b \<and> py_le (area env b) TINY_AREA)"
  shows "\<exists>e. polygon_to_trimesh env p h = Inl e"
  using assms by (auto simp: polygon_to_trimesh_def)

lemma add_rows_skip_middle:
  assumes "geometry r = Some (Polygon p)"
    and "(\<exists>e. repair env p = Inl e) \<or> (\<exists>b. repair env p = Inr b \<and> py_le (area env b) TINY_AREA)"
  shows "add_rows env (rs1 @ r # rs2) st = add_rows env (rs1 @ rs2) st"
proof -
  have "\<And>h. \<exists>e. polygon_to_trimesh env p h = Inl e"
    using assms(2) by (rule rejected_fails)
  with assms(1) have "\<And>st'. add_rows env (r # rs2) st' = add_rows env rs2 st'"
    by (rule add_rows_skip)
  then show ?thesis
    by (simp only: add_rows_append)
qed

lemma add_polys_append:
  "add_polys env h c (ps1 @ ps2) st = add_polys env h c ps2 (add_polys env h c ps1 st)"
proof (induction ps1 arbitrary: st)
  case Nil
  show ?case by simp
next
  case (Cons p ps1)
  obtain sc n where st: "st = (sc, n)" by (cases st)
  show ?case
    unfolding st by (cases "polygon_to_trimesh env p (py_max h MIN_HEIGHT_M)") (simp_all add: Cons)
qed

lemma add_polys_skip_part:
  assumes "(\<exists>e. repair env p = Inl e) \<or> (\<exists>b. repair env p = Inr b \<and> py_le (area env b) TINY_AREA)"
  shows "add_polys env h c (ps1 @ p # ps2) st = add_polys env h c (ps1 @ ps2) st"
proof -
  obtain e where e: "polygon_to_trimesh env p (py_max h MIN_HEIGHT_M) = Inl e"
    using rejected_fails [OF assms] by blast
  have "\<And>st'. add_polys env h c (p # ps2) st' = add_polys env h c ps2 st'"
  proof -
    fix st' :: "'a scene \<times> nat"
    obtain sc n where "st' = (sc, n)" by (cases st')
    with e show "add_polys env h c (p # ps2) st' = add_polys env h c ps2 st'" by simp
  qed
  then show ?thesis by (simp only: add_polys_append)
qed

lemma add_rows_skip_part:
  assumes "geometry r = Some (MultiPolygon (ps1 @ p # ps2))"
    and "(\<exists>e. repair env p = Inl e) \<or> (\<exists>b. repair env p = Inr b \<and> py_le (area env b) TINY_AREA)"
  shows "add_rows env (rs1 @ r # rs2) st
     = add_rows env (rs1 @ r\<lparr>geometry := Some (MultiPolygon (ps1 @ ps2))\<rparr> # rs2) st"
proof -
  obtain h where h: "footprint_height (attrs r) = Inr h"
    using footprint_height_total by blast
  have "\<And>st'. add_rows env (r # rs2) st'
      = add_rows env (r\<lparr>geometry := Some (MultiPolygon (ps1 @ ps2))\<rparr> # rs2) st'"
    using assms(1) h add_polys_skip_part [OF assms(2), of h "footprint_color (attrs r)" ps1 ps2]
    by (simp del: add_polys.simps)
  then show ?thesis by (simp only: add_rows_append)
qed

lemma normalize_result:
  "normalize env g =
     (let src = (case crs g of None \<Rightarrow> EPSG 4326 | Some c \<Rightarrow> c);
          tgt = (case estimate_utm_crs env (g\<lparr>crs := Some src\<rparr>) of
                   Inr utm \<Rightarrow> utm
                 | Inl _ \<Rightarrow> EPSG 3857)
      in Inr (g\<lparr>crs := Some tgt,
                rows := map (\<lambda>r. r\<lparr>geometry := map_option (reproject env src tgt) (geometry r)\<rparr>)
                            (rows g)\<rparr>))"
proof (cases "crs g")
  case None
  then show ?thesis
    by (cases "estimate_utm_crs env (g\<lparr>crs := Some (EPSG 4326)\<rparr>)")
       (simp_all add: normalize_def to_crs_def set_crs_def Let_def)
next
  case (Some c)
  then have g: "g\<lparr>crs := Some c\<rparr> = g" by simp
  from Some show ?thesis
    by (cases "estimate_utm_crs env g")
       (simp_all add: normalize_def to_crs_def set_crs_def Let_def g)
qed

lemma build_outcome:
  assumes "fetch_buildings_gdf env cfg = Inr g"
  shows "\<exists>scene. add_rows env (rows g) ([], 0) = Inr (scene, length scene) \<and>
           build_glb_from_osm env cfg out_path =
             (if rows g = [] then Inl (RuntimeError NO_BUILDINGS_MSG)
              else if scene = [] then Inl (RuntimeError NO_MESH_MSG)
              else Inr (out_path, scene))"
proof -
  obtain scene where sc: "add_rows env (rows g) ([], 0) = Inr (scene, length scene)"
    using add_rows_grows [of env "rows g" "[]" 0] by auto
  with assms have "build_glb_from_osm env cfg out_path =
             (if rows g = [] then Inl (RuntimeError NO_BUILDINGS_MSG)
              else if scene = [] then Inl (RuntimeError NO_MESH_MSG)
              else Inr (out_path, scene))"
    by (simp add: build_glb_from_osm_def)
  with sc show ?thesis by blast
qed


text \<open>
  When the zero-distance buffer of the library returns valid polygons only, a mesh comes
  from a polygon that is valid after the repair and has an area above the threshold.
\<close>

lemma repaired_valid:
  assumes "\<forall>q. buffer env p 0 = Polygon q \<longrightarrow> is_valid env q"
    and "\<forall>ps. buffer env p 0 = MultiPolygon ps \<longrightarrow> (\<forall>q \<in> set ps. is_valid env q)"
    and "repair env p = Inr b"
  shows "is_valid env b"
proof (cases "is_valid env p")
  case True
  with assms(3) show ?thesis by (simp add: repair_def)
next
  case False
  show ?thesis
  proof (cases "buffer env p 0")
    case (Polygon q)
    with False assms(1,3) show ?thesis by (simp add: repair_def)
  next
    case (MultiPolygon ps)
    show ?thesis
    proof (cases ps)
      case Nil
      with False MultiPolygon assms(3) show ?thesis
        by (simp add: repair_def max_by_area_def)
    next
      case (Cons g gs)
      with False MultiPolygon assms(3) have "b = max_area_from env g gs"
        by (simp add: repair_def max_by_area_def)
      with max_area_from_best [of env g gs] have "b \<in> set ps"
        using Cons by simp
      with assms(2) MultiPolygon show ?thesis by blast
    qed
  next
    case OtherGeometry
    with False assms(3) show ?thesis by (simp add: repair_def)
  qed
qed

lemma mesh_only_from_sound_polygon:
  assumes "\<forall>q. buffer env p 0 = Polygon q \<longrightarrow> is_valid env q"
    and "\<forall>ps. buffer env p 0 = MultiPolygon ps \<longrightarrow> (\<forall>q \<in> set ps. is_valid env q)"
    and "polygon_to_trimesh env p h = Inr m"
  shows "\<exists>b. repair env p = Inr b \<and> is_valid env b \<and> \<not> py_le (area env b) TINY_AREA"
proof (cases "repair env p")
  case (Inl e)
  with assms(3) show ?thesis by (simp add: polygon_to_trimesh_def)
next
  case (Inr b)
  with assms(3) have "\<not> py_le (area env b) TINY_AREA"
    by (auto simp: polygon_to_trimesh_def split: if_splits)
  moreover have "is_valid env b"
    using assms(1,2) Inr by (rule repaired_valid)
  ultimately show ?thesis using Inr by blast
qed

text \<open>
  C6: an invalid polygon is replaced by its zero-distance buffer; of a multi-polygon
  the part of largest area is kept (no part has a greater area than the kept one); a
  result that is neither a polygon nor a multi-polygon is rejected as invalid, and a
  polygon whose area is at most 1e-12 is rejected as too small. A row whose polygon is
  rejected leaves the scene and the counter as they were, so the run gives the same
  result as without that row; a rejected part of a multi-polygon row is passed over in
  the same way, and the parts before and after it are processed as if it were not
  there; the loop over the rows never fails. With a buffer that
  returns valid polygons only, as the geometry library does, every mesh comes from a
  polygon that is valid after the repair and larger than the threshold.
\<close>

theorem degenerate_polygon_skipped:
  "(\<not> is_valid env pa \<and> buffer env pa 0 = Polygon qa \<longrightarrow> repair env pa = Inr qa) \<and>
   (\<not> is_valid env pb \<and> buffer env pb 0 = MultiPolygon (q # qs) \<longrightarrow>
      (\<exists>b \<in> set (q # qs). repair env pb = Inr b \<and>
         (\<forall>r \<in> set (q # qs). \<not> py_lt (area env b) (area env r)))) \<and>
   (\<not> is_valid env pc \<and> buffer env pc 0 = OtherGeometry \<longrightarrow>
      polygon_to_trimesh env pc hc = Inl (ValueError ''Invalid polygon after buffer(0)'')) \<and>
   (repair env pd = Inr bd \<and> py_le (area env bd) TINY_AREA \<longrightarrow>
      polygon_to_trimesh env pd ht = Inl (ValueError ''Polygon too small'')) \<and>
   (geometry row = Some (Polygon pe) \<and>
    ((\<exists>e. repair env pe = Inl e) \<or> (\<exists>b. repair env pe = Inr b \<and> py_le (area env b) TINY_AREA)) \<longrightarrow>
      add_rows env (rs1 @ row # rs2) st = add_rows env (rs1 @ rs2) st) \<and>
   ((\<exists>e. repair env pg = Inl e) \<or> (\<exists>b. repair env pg = Inr b \<and> py_le (area env b) TINY_AREA) \<longrightarrow>
      add_polys env hg cg (pre @ pg # post) stp = add_polys env hg cg (pre @ post) stp) \<and>
   (geometry rowm = Some (MultiPolygon (pre @ pg # post)) \<and>
    ((\<exists>e. repair env pg = Inl e) \<or> (\<exists>b. repair env pg = Inr b \<and> py_le (area env b) TINY_AREA)) \<longrightarrow>
      add_rows env (rsa @ rowm # rsb) stm
        = add_rows env (rsa @ rowm\<lparr>geometry := Some (MultiPolygon (pre @ post))\<rparr> # rsb) stm) \<and>
   ((\<forall>q. buffer env pf 0 = Polygon q \<longrightarrow> is_valid env q) \<and>
    (\<forall>ps. buffer env pf 0 = MultiPolygon ps \<longrightarrow> (\<forall>q \<in> set ps. is_valid env q)) \<and>
    polygon_to_trimesh env pf hf = Inr m \<longrightarrow>
      (\<exists>b. repair env pf = Inr b \<and> is_valid env b \<and> \<not> py_le (area env b) TINY_AREA)) \<and>
   (\<exists>scene. add_rows env rs ([], 0) = Inr (scene, length scene))"
proof -
  have c: "\<not> is_valid env pc \<and> buffer env pc 0 = OtherGeometry \<longrightarrow>
      polygon_to_trimesh env pc hc = Inl (ValueError ''Invalid polygon after buffer(0)'')"
    by (simp add: polygon_to_trimesh_def repair_def)
  have f: "\<exists>scene. add_rows env rs ([], 0) = Inr (scene, length scene)"
    using add_rows_grows [of env rs "[]" 0] by auto
  from repair_cases(2) [of env pa qa] repair_largest [of env pb q qs] c
    too_small [of env pd bd ht] add_rows_skip_middle [of row pe env rs1 rs2 st] f
    mesh_only_from_sound_polygon [of env pf hf m]
    add_polys_skip_part [of env pg hg cg pre post stp]
    add_rows_skip_part [of rowm pre pg post env rsa rsb stm]
  show ?thesis by blast
qed

theorem degenerate_polygon_skipped_witness:
  "\<not> is_valid (double_env (source_of [])) Sliver \<and>
   buffer (double_env (source_of [])) Sliver 0 = Polygon Sliver \<and>
   repair (double_env (source_of [])) Sliver = Inr Sliver \<and>
   \<not> is_valid (double_env (source_of [])) (Bowtie 1 2) \<and>
   buffer (double_env (source_of [])) (Bowtie 1 2) 0 = MultiPolygon [Square 1, Square 2] \<and>
   repair (double_env (source_of [])) (Bowtie 1 2) = Inr (Square 2) \<and>
   \<not> is_valid (double_env (source_of [])) Broken \<and>
   buffer (double_env (source_of [])) Broken 0 = OtherGeometry \<and>
   polygon_to_trimesh (double_env (source_of [])) Broken (Fin 5)
     = Inl (ValueError ''Invalid polygon after buffer(0)'') \<and>
   py_le (area (double_env (source_of [])) Sliver) TINY_AREA \<and>
   polygon_to_trimesh (double_env (source_of [])) Sliver (Fin 5)
     = Inl (ValueError ''Polygon too small'') \<and>
   polygon_to_trimesh (double_env (source_of [])) (Bowtie 1 2) (Fin 5)
     = Inr \<lparr>footprint = Polygon (Square 2), distance = Fin 5, vertex_colors = None\<rparr> \<and>
   is_valid (double_env (source_of [])) (Square 2) \<and>
   \<not> py_le (area (double_env (source_of [])) (Square 2)) TINY_AREA \<and>
   add_polys (double_env (source_of [])) (Fin 3) (200, 200, 200, 255)
     ([Square 1] @ Sliver # [Square 2]) ([], 0)
     = add_polys (double_env (source_of [])) (Fin 3) (200, 200, 200, 255)
         ([Square 1] @ [Square 2]) ([], 0) \<and>
   add_rows (double_env (source_of []))
     ([] @ \<lparr>geometry = Some (MultiPolygon ([Square 1] @ Sliver # [Square 2])),
             attrs = Map.empty\<rparr> # []) ([], 0)
     = Inr ([\<lparr>footprint = Polygon (Square 1), distance = Fin 3,
               vertex_colors = Some (200, 200, 200, 255)\<rparr>,
             \<lparr>footprint = Polygon (Square 2), distance = Fin 3,
               vertex_colors = Some (200, 200, 200, 255)\<rparr>], 2) \<and>
   geometry (polygon_row Sliver Map.empty) = Some (Polygon Sliver) \<and>
   add_rows (double_env (source_of []))
     ([polygon_row (Square 1) Map.empty] @ polygon_row Sliver Map.empty
        # [polygon_row (Square 2) Map.empty]) ([], 0)
     = add_rows (double_env (source_of []))
         ([polygon_row (Square 1) Map.empty] @ [polygon_row (Square 2) Map.empty]) ([], 0) \<and>
   add_rows (double_env (source_of []))
     [polygon_row (Square 1) Map.empty, polygon_row Sliver Map.empty,
      polygon_row (Square 2) Map.empty] ([], 0)
     = Inr ([\<lparr>footprint = Polygon (Square 1), distance = Fin 3,
               vertex_colors = Some (200, 200, 200, 255)\<rparr>,
             \<lparr>footprint = Polygon (Square 2), distance = Fin 3,
               vertex_colors = Some (200, 200, 200, 255)\<rparr>], 2)"
proof -
  have h: "footprint_height Map.empty = Inr (Fin 3)"
    by code_simp
  have c: "footprint_color Map.empty = (200, 200, 200, 255)"
    by code_simp
  show ?thesis
    using degenerate_polygon_skipped [where env = "double_env (source_of [])"
      and pa = Sliver and qa = Sliver and pb = "Bowtie 1 2" and q = "Square 1"
      and qs = "[Square 2]" and pc = Broken and hc = "Fin 5" and pd = Sliver
      and bd = Sliver and ht = "Fin 5" and row = "polygon_row Sliver Map.empty"
      and pe = Sliver and ?rs1.0 = "[polygon_row (Square 1) Map.empty]"
      and ?rs2.0 = "[polygon_row (Square 2) Map.empty]" and st = "([], 0)" and rs = "[]"
      and pf = "Bowtie 1 2" and hf = "Fin 5"
      and m = "\<lparr>footprint = Polygon (Square 2), distance = Fin 5, vertex_colors = None\<rparr>"
      and pg = Sliver and hg = "Fin 3" and cg = "(200, 200, 200, 255)"
      and pre = "[Square 1]" and post = "[Square 2]" and stp = "([], 0)"
      and rowm = "\<lparr>geometry = Some (MultiPolygon ([Square 1] @ Sliver # [Square 2])),
                   attrs = Map.empty\<rparr>"
      and rsa = "[]" and rsb = "[]" and stm = "([], 0)"]
    by (simp add: repair_def max_by_area_def polygon_to_trimesh_def extrude_polygon_def
          TINY_AREA_def polygon_row_def h c py_max_def MIN_HEIGHT_M_def Let_def)
qed

text \<open>
  C7: when the footprints were fetched, the run fails exactly when no mesh was added,
  and it does so with one of two messages: for an empty footprint collection the
  message suggests a larger radius; for footprints of which none gave a mesh the message
  only says that no mesh could be created. Otherwise the run returns the path under
  which the scene was exported.
\<close>

theorem build_glb_outcome:
  assumes "fetch_buildings_gdf env cfg = Inr g"
  shows "\<exists>scene. add_rows env (rows g) ([], 0) = Inr (scene, length scene) \<and>
           build_glb_from_osm env cfg out_path =
             (if rows g = [] then Inl (RuntimeError NO_BUILDINGS_MSG)
              else if scene = [] then Inl (RuntimeError NO_MESH_MSG)
              else Inr (out_path, scene)) \<and>
           mentions_radius NO_BUILDINGS_MSG \<and> \<not> mentions_radius NO_MESH_MSG"
proof -
  have "mentions_radius NO_BUILDINGS_MSG"
    unfolding mentions_radius_def NO_BUILDINGS_MSG_def by code_simp
  moreover have "\<not> mentions_radius NO_MESH_MSG"
    unfolding mentions_radius_def NO_MESH_MSG_def by code_simp
  ultimately show ?thesis
    using build_outcome [OF assms, of out_path] by blast
qed

lemma polygon_row_simps [simp]:
  "geometry (polygon_row p a) = Some (Polygon p)"
  "attrs (polygon_row p a) = a"
  by (simp_all add: polygon_row_def)

lemma shape_simplify_polygon:
  "p \<noteq> Broken \<Longrightarrow> shape_simplify (Polygon p) tol = Inr (Polygon p)"
  by (cases p) simp_all

lemma fetch_double:
  "p \<noteq> Broken \<Longrightarrow>
   fetch_buildings_gdf (double_env (source_of [polygon_row p a])) cfg
     = Inr \<lparr>crs = Some (EPSG 32614), rows = [polygon_row p a]\<rparr>"
  by (simp add: fetch_buildings_gdf_def source_of_def bbox_from_point_m_def normalize_def
      to_crs_def set_crs_def is_polygonal_def polygon_row_def explode_row_def Let_def
      shape_simplify_polygon)

text \<open>An exception of the simplification leaves the fetch, and with it the run.\<close>

lemma fetch_simplify_raises:
  "fetch_buildings_gdf (double_env (source_of [polygon_row Broken a])) (demo_cfg la lo r)
     = Inl (OtherException ''GEOSException'')"
  by (simp add: fetch_buildings_gdf_def source_of_def bbox_from_point_m_def normalize_def
      to_crs_def set_crs_def is_polygonal_def polygon_row_def explode_row_def Let_def
      demo_cfg_def)

theorem build_glb_outcome_witness:
  "fetch_buildings_gdf (double_env (source_of [polygon_row (Square 1) Map.empty]))
     (demo_cfg (Fin 19) (Fin (- 99)) (Fin 500))
     = Inr \<lparr>crs = Some (EPSG 32614), rows = [polygon_row (Square 1) Map.empty]\<rparr> \<and>
   build_glb_from_osm (double_env (source_of [polygon_row (Square 1) Map.empty]))
     (demo_cfg (Fin 19) (Fin (- 99)) (Fin 500)) ''osm_buildings.glb''
     = Inr (''osm_buildings.glb'',
            [\<lparr>footprint = Polygon (Square 1), distance = Fin 3,
              vertex_colors = Some (200, 200, 200, 255)\<rparr>])"
proof -
  have h: "footprint_height Map.empty = Inr (Fin 3)"
    by code_simp
  have c: "footprint_color Map.empty = (200, 200, 200, 255)"
    by code_simp
  show ?thesis
    using build_glb_outcome [OF fetch_double, of "Square 1" Map.empty
      "demo_cfg (Fin 19) (Fin (- 99)) (Fin 500)" "''osm_buildings.glb''"]
    by (simp add: fetch_double polygon_to_trimesh_def repair_def
          extrude_polygon_def TINY_AREA_def h c py_max_def MIN_HEIGHT_M_def)
qed

theorem all_degenerate_message:
  "build_glb_from_osm (double_env (source_of [polygon_row Sliver Map.empty]))
     (demo_cfg (Fin 19) (Fin (- 99)) (Fin 500)) ''osm_buildings.glb''
     = Inl (RuntimeError ''No se pudo crear ninguna malla.'') \<and>
   \<not> mentions_radius ''No se pudo crear ninguna malla.''"
proof -
  have h: "footprint_height Map.empty = Inr (Fin 3)"
    by code_simp
  have m: "\<not> mentions_radius ''No se pudo crear ninguna malla.''"
    unfolding mentions_radius_def by code_simp
  have "build_glb_from_osm (double_env (source_of [polygon_row Sliver Map.empty]))
     (demo_cfg (Fin 19) (Fin (- 99)) (Fin 500)) ''osm_buildings.glb''
     = Inl (RuntimeError ''No se pudo crear ninguna malla.'')"
    by (simp add: build_glb_from_osm_def fetch_double polygon_to_trimesh_def
          repair_def TINY_AREA_def h NO_MESH_MSG_def)
  with m show ?thesis by simp
qed







text \<open>
  C9: the coordinate normaliser always returns a collection: it takes WGS84 (EPSG 4326)
  as the source when none is set, reprojects every geometry to the estimated UTM zone,
  and to Web Mercator (EPSG 3857) when the estimate fails; all rows end in that one
  reference system.
\<close>

theorem normalize_never_fails:
  "(\<exists>g'. normalize env g = Inr g') \<and>
   normalize env g =
     (let src = (case crs g of None \<Rightarrow> EPSG 4326 | Some c \<Rightarrow> c);
          tgt = (case estimate_utm_crs env (g\<lparr>crs := Some src\<rparr>) of
                   Inr utm \<Rightarrow> utm
                 | Inl _ \<Rightarrow> EPSG 3857)
      in Inr (g\<lparr>crs := Some tgt,
                rows := map (\<lambda>r. r\<lparr>geometry := map_option (reproject env src tgt) (geometry r)\<rparr>)
                            (rows g)\<rparr>))"
  using normalize_result [of env g] by (simp add: Let_def)

text \<open>
  C3: the configuration is never validated. The constructor does not fail and stores
  the values it is given, in range or not. A run reads latitude, longitude and radius
  only to hand them to the bounding-box function of the library: two configurations
  for which that function returns the same box, and which agree on the two flags, give
  the same fetch and the same run, whether their values are in range or not.
\<close>

theorem no_config_validation:
  "OSM3DConfig_init la lo r s m =
     Inr \<lparr>lat = la, lon = lo,
          radius_m = (case r of None \<Rightarrow> Fin 500 | Some x \<Rightarrow> x),
          simplify = (case s of None \<Rightarrow> True | Some b \<Rightarrow> b),
          merge_multipolygons = (case m of None \<Rightarrow> True | Some b \<Rightarrow> b)\<rparr> \<and>
   (bbox_from_point env (lat c1, lon c1) (radius_m c1)
      = bbox_from_point env (lat c2, lon c2) (radius_m c2) \<and>
    simplify c1 = simplify c2 \<and> merge_multipolygons c1 = merge_multipolygons c2 \<longrightarrow>
      fetch_buildings_gdf env c1 = fetch_buildings_gdf env c2 \<and>
      build_glb_from_osm env c1 out_path = build_glb_from_osm env c2 out_path)"
proof -
  have 1: "OSM3DConfig_init la lo r s m =
     Inr \<lparr>lat = la, lon = lo,
          radius_m = (case r of None \<Rightarrow> Fin 500 | Some x \<Rightarrow> x),
          simplify = (case s of None \<Rightarrow> True | Some b \<Rightarrow> b),
          merge_multipolygons = (case m of None \<Rightarrow> True | Some b \<Rightarrow> b)\<rparr>"
    by (simp add: OSM3DConfig_init_def)
  have 2: "bbox_from_point env (lat c1, lon c1) (radius_m c1)
      = bbox_from_point env (lat c2, lon c2) (radius_m c2) \<and>
    simplify c1 = simplify c2 \<and> merge_multipolygons c1 = merge_multipolygons c2 \<longrightarrow>
      fetch_buildings_gdf env c1 = fetch_buildings_gdf env c2 \<and>
      build_glb_from_osm env c1 out_path = build_glb_from_osm env c2 out_path"
  proof
    assume a: "bbox_from_point env (lat c1, lon c1) (radius_m c1)
      = bbox_from_point env (lat c2, lon c2) (radius_m c2) \<and>
      simplify c1 = simplify c2 \<and> merge_multipolygons c1 = merge_multipolygons c2"
    then have e: "bbox_from_point env (lat c1, lon c1) (radius_m c1)
        = bbox_from_point env (lat c2, lon c2) (radius_m c2)"
      "simplify c1 = simplify c2" "merge_multipolygons c1 = merge_multipolygons c2"
      by simp_all
    have f: "fetch_buildings_gdf env c1 = fetch_buildings_gdf env c2"
      unfolding fetch_buildings_gdf_def bbox_from_point_m_def e by (rule refl)
    have "build_glb_from_osm env c1 out_path = build_glb_from_osm env c2 out_path"
      unfolding build_glb_from_osm_def f by (rule refl)
    with f show "fetch_buildings_gdf env c1 = fetch_buildings_gdf env c2 \<and>
      build_glb_from_osm env c1 out_path = build_glb_from_osm env c2 out_path"
      by (rule conjI)
  qed
  from 1 2 show ?thesis by (rule conjI)
qed

theorem no_config_validation_witness:
  "bbox_from_point (double_env (source_of [polygon_row (Square 1) Map.empty]))
      (lat (demo_cfg (Fin 19) (Fin (- 99)) (Fin 500)),
       lon (demo_cfg (Fin 19) (Fin (- 99)) (Fin 500)))
      (radius_m (demo_cfg (Fin 19) (Fin (- 99)) (Fin 500)))
     = bbox_from_point (double_env (source_of [polygon_row (Square 1) Map.empty]))
      (lat (demo_cfg (Fin 19) (Fin (- 99)) (Fin (- 1))),
       lon (demo_cfg (Fin 19) (Fin (- 99)) (Fin (- 1))))
      (radius_m (demo_cfg (Fin 19) (Fin (- 99)) (Fin (- 1)))) \<and>
   build_glb_from_osm (double_env (source_of [polygon_row (Square 1) Map.empty]))
     (demo_cfg (Fin 19) (Fin (- 99)) (Fin 500)) ''osm_buildings.glb''
     = build_glb_from_osm (double_env (source_of [polygon_row (Square 1) Map.empty]))
         (demo_cfg (Fin 19) (Fin (- 99)) (Fin (- 1))) ''osm_buildings.glb'' \<and>
   build_glb_from_osm (double_env (source_of [polygon_row (Square 1) Map.empty]))
     (demo_cfg (Fin 19) (Fin (- 99)) (Fin (- 1))) ''osm_buildings.glb''
     = Inr (''osm_buildings.glb'',
            [\<lparr>footprint = Polygon (Square 1), distance = Fin 3,
              vertex_colors = Some (200, 200, 200, 255)\<rparr>])"
proof -
  have h: "footprint_height Map.empty = Inr (Fin 3)"
    by code_simp
  have c: "footprint_color Map.empty = (200, 200, 200, 255)"
    by code_simp
  have b: "bbox_from_point (double_env (source_of [polygon_row (Square 1) Map.empty]))
      (lat (demo_cfg (Fin 19) (Fin (- 99)) (Fin 500)),
       lon (demo_cfg (Fin 19) (Fin (- 99)) (Fin 500)))
      (radius_m (demo_cfg (Fin 19) (Fin (- 99)) (Fin 500)))
     = bbox_from_point (double_env (source_of [polygon_row (Square 1) Map.empty]))
      (lat (demo_cfg (Fin 19) (Fin (- 99)) (Fin (- 1))),
       lon (demo_cfg (Fin 19) (Fin (- 99)) (Fin (- 1))))
      (radius_m (demo_cfg (Fin 19) (Fin (- 99)) (Fin (- 1))))"
    by (simp add: demo_cfg_def)
  have f: "simplify (demo_cfg (Fin 19) (Fin (- 99)) (Fin 500))
      = simplify (demo_cfg (Fin 19) (Fin (- 99)) (Fin (- 1))) \<and>
    merge_multipolygons (demo_cfg (Fin 19) (Fin (- 99)) (Fin 500))
      = merge_multipolygons (demo_cfg (Fin 19) (Fin (- 99)) (Fin (- 1)))"
    by (simp add: demo_cfg_def)
  have e: "build_glb_from_osm (double_env (source_of [polygon_row (Square 1) Map.empty]))
     (demo_cfg (Fin 19) (Fin (- 99)) (Fin 500)) ''osm_buildings.glb''
     = build_glb_from_osm (double_env (source_of [polygon_row (Square 1) Map.empty]))
         (demo_cfg (Fin 19) (Fin (- 99)) (Fin (- 1))) ''osm_buildings.glb''"
    using no_config_validation [where env = "double_env (source_of [polygon_row (Square 1) Map.empty])"
      and ?c1.0 = "demo_cfg (Fin 19) (Fin (- 99)) (Fin 500)"
      and ?c2.0 = "demo_cfg (Fin 19) (Fin (- 99)) (Fin (- 1))"
      and out_path = "''osm_buildings.glb''"] b f
    by blast
  have v: "build_glb_from_osm (double_env (source_of [polygon_row (Square 1) Map.empty]))
     (demo_cfg (Fin 19) (Fin (- 99)) (Fin (- 1))) ''osm_buildings.glb''
     = Inr (''osm_buildings.glb'',
            [\<lparr>footprint = Polygon (Square 1), distance = Fin 3,
              vertex_colors = Some (200, 200, 200, 255)\<rparr>])"
    by (simp add: build_glb_from_osm_def fetch_double polygon_to_trimesh_def repair_def
          extrude_polygon_def TINY_AREA_def h c py_max_def MIN_HEIGHT_M_def)
  from b e v show ?thesis by (intro conjI)
qed

theorem invalid_config_accepted:
  "OSM3DConfig_init (Fin 100) (Fin 200) (Some (Fin (- 1))) None None
     = Inr (demo_cfg (Fin 100) (Fin 200) (Fin (- 1))) \<and>
   build_glb_from_osm (double_env (source_of [polygon_row (Square 1) Map.empty]))
     (demo_cfg (Fin 100) (Fin 200) (Fin (- 1))) ''osm_buildings.glb''
     = Inr (''osm_buildings.glb'',
            [\<lparr>footprint = Polygon (Square 1), distance = Fin 3,
              vertex_colors = Some (200, 200, 200, 255)\<rparr>]) \<and>
   build_glb_from_osm (double_env (Inl (OtherException ''timed out'')))
     (demo_cfg (Fin 100) (Fin 200) (Fin (- 1))) ''osm_buildings.glb''
     = Inl (RuntimeError ''No se pudo descargar datos OSM: timed out'')"
proof -
  have h: "footprint_height Map.empty = Inr (Fin 3)"
    by code_simp
  have c: "footprint_color Map.empty = (200, 200, 200, 255)"
    by code_simp
  have 1: "OSM3DConfig_init (Fin 100) (Fin 200) (Some (Fin (- 1))) None None
     = Inr (demo_cfg (Fin 100) (Fin 200) (Fin (- 1)))"
    by (simp add: OSM3DConfig_init_def demo_cfg_def)
  have 2: "build_glb_from_osm (double_env (source_of [polygon_row (Square 1) Map.empty]))
     (demo_cfg (Fin 100) (Fin 200) (Fin (- 1))) ''osm_buildings.glb''
     = Inr (''osm_buildings.glb'',
            [\<lparr>footprint = Polygon (Square 1), distance = Fin 3,
              vertex_colors = Some (200, 200, 200, 255)\<rparr>])"
    by (simp add: build_glb_from_osm_def fetch_double polygon_to_trimesh_def repair_def
          extrude_polygon_def TINY_AREA_def h c py_max_def MIN_HEIGHT_M_def)
  have 3: "build_glb_from_osm (double_env (Inl (OtherException ''timed out'')))
     (demo_cfg (Fin 100) (Fin 200) (Fin (- 1))) ''osm_buildings.glb''
     = Inl (RuntimeError ''No se pudo descargar datos OSM: timed out'')"
    by (simp add: build_glb_from_osm_def fetch_buildings_gdf_def bbox_from_point_m_def
          demo_cfg_def DOWNLOAD_MSG_def)
  from 1 2 3 show ?thesis by blast
qed

end
